theory Spec2Isabelle
  imports Complex_Main
begin

section \<open>Core types (packages/core/src/types.ts)\<close>

text \<open>
  A \<open>UUID\<close> is a string at run time; the TypeScript type is the template
  \<open>${string}-${string}-${string}-${string}-${string}\<close>, so a value of that type holds
  at least four hyphens.
\<close>

type_synonym UUID = string

definition UUID_template :: "string \<Rightarrow> bool" where
  "UUID_template s = (4 \<le> count_list s CHR ''-'')"

text \<open>A JavaScript \<open>Error\<close> carries its message; \<open>TypeError\<close> is what a property
  read on \<open>null\<close> or \<open>undefined\<close> raises.\<close>

datatype error = Error string | TypeError string

subsection \<open>Result helpers: Success, Failure, success, failure\<close>

record 'a Success =
  Success_value :: 'a
  Success_isSuccess :: bool
  Success_isFailure :: bool

record 'e Failure =
  Failure_error :: 'e
  Failure_isSuccess :: bool
  Failure_isFailure :: bool

text \<open>The constructors: the two flags are field initialisers of the classes.\<close>

definition new_Success :: "'a \<Rightarrow> 'a Success" where
  "new_Success v = \<lparr>Success_value = v, Success_isSuccess = True, Success_isFailure = False\<rparr>"

definition new_Failure :: "'e \<Rightarrow> 'e Failure" where
  "new_Failure e = \<lparr>Failure_error = e, Failure_isSuccess = False, Failure_isFailure = True\<rparr>"

definition Success_map :: "'a Success \<Rightarrow> ('a \<Rightarrow> 'b) \<Rightarrow> 'b Success" where
  "Success_map this fn = new_Success (fn (Success_value this))"

definition Success_unwrapOr :: "'a Success \<Rightarrow> 'a \<Rightarrow> 'a" where
  "Success_unwrapOr this defaultValue = Success_value this"

definition Failure_mapError :: "'e Failure \<Rightarrow> ('e \<Rightarrow> 'f) \<Rightarrow> 'f Failure" where
  "Failure_mapError this fn = new_Failure (fn (Failure_error this))"

definition Failure_unwrapOr :: "'e Failure \<Rightarrow> 'a \<Rightarrow> 'a" where
  "Failure_unwrapOr this defaultValue = defaultValue"

definition success :: "'a \<Rightarrow> 'a Success" where
  "success v = new_Success v"

definition failure :: "'e \<Rightarrow> 'e Failure" where
  "failure e = new_Failure e"

subsection \<open>asUUID\<close>

text \<open>
  The regular expression of \<open>asUUID\<close> is
  \<open>/^[0-9a-f]{8}-[0-9a-f]{4}-[0-9a-f]{4}-[0-9a-f]{4}-[0-9a-f]{12}$/i\<close>.
  \<open>hex_class\<close> is the class \<open>[0-9a-f]\<close> under the flag \<open>i\<close>, by character code;
  \<open>match_hex n\<close> is \<open>[0-9a-f]{n}\<close> and \<open>match_dash\<close> the literal hyphen: each
  consumes a prefix of the input and returns the rest, or fails. The pattern has fixed
  repetition counts, so the matcher never backtracks. Without the flag \<open>m\<close> the
  anchors are the two ends of the input.
\<close>

definition hex_class :: "char \<Rightarrow> bool" where
  "hex_class c =
     (let n = (of_char c :: nat)
      in (48 \<le> n \<and> n \<le> 57) \<or> (97 \<le> n \<and> n \<le> 102) \<or> (65 \<le> n \<and> n \<le> 70))"

fun match_hex :: "nat \<Rightarrow> string \<Rightarrow> string option" where
  "match_hex 0 s = Some s"
| "match_hex (Suc n) [] = None"
| "match_hex (Suc n) (c # cs) = (if hex_class c then match_hex n cs else None)"

fun match_dash :: "string \<Rightarrow> string option" where
  "match_dash [] = None"
| "match_dash (c # cs) = (if c = CHR ''-'' then Some cs else None)"

definition uuid_regex_test :: "string \<Rightarrow> bool" where
  "uuid_regex_test s =
     (Option.bind (Option.bind (Option.bind (Option.bind (Option.bind (Option.bind
        (Option.bind (Option.bind (match_hex 8 s) match_dash) (match_hex 4)) match_dash)
        (match_hex 4)) match_dash) (match_hex 4)) match_dash) (match_hex 12) = Some [])"

text \<open>\<open>!id\<close> holds of the empty string only; the thrown \<open>Error\<close> carries the message
  of the template literal.\<close>

definition asUUID :: "string \<Rightarrow> error + UUID" where
  "asUUID id' =
     (if id' = [] \<or> \<not> uuid_regex_test id'
      then Inl (Error (''Invalid UUID format: '' @ id'))
      else Inr id')"

text \<open>
  The claim's wording, independently of the matcher: the 8-4-4-4-12 hexadecimal
  pattern, case-insensitive. The string is cut at every hyphen; there must be five
  groups of lengths 8, 4, 4, 4 and 12, all of hexadecimal digits of either case.
\<close>

fun split_on :: "char \<Rightarrow> string \<Rightarrow> string list" where
  "split_on d [] = [[]]"
| "split_on d (c # cs) =
     (if c = d then [] # split_on d cs
      else (case split_on d cs of [] \<Rightarrow> [[c]] | w # ws \<Rightarrow> (c # w) # ws))"

fun join_with :: "char \<Rightarrow> string list \<Rightarrow> string" where
  "join_with d [] = []"
| "join_with d [w] = w"
| "join_with d (w # v # ws) = w @ d # join_with d (v # ws)"

definition hexadecimal_digit :: "char \<Rightarrow> bool" where
  "hexadecimal_digit c = (c \<in> set ''0123456789abcdefABCDEF'')"

definition pattern_8_4_4_4_12 :: "string \<Rightarrow> bool" where
  "pattern_8_4_4_4_12 s =
     (map length (split_on CHR ''-'' s) = [8, 4, 4, 4, 12]
      \<and> list_all hexadecimal_digit (concat (split_on CHR ''-'' s)))"

text \<open>The same pattern with its five groups named; used in the proofs only.\<close>

definition groups_8_4_4_4_12 :: "string \<Rightarrow> bool" where
  "groups_8_4_4_4_12 s =
     (\<exists>a b c d e. s = a @ CHR ''-'' # b @ CHR ''-'' # c @ CHR ''-'' # d @ CHR ''-'' # e
        \<and> length a = 8 \<and> length b = 4 \<and> length c = 4 \<and> length d = 4 \<and> length e = 12
        \<and> list_all hexadecimal_digit a \<and> list_all hexadecimal_digit b
        \<and> list_all hexadecimal_digit c \<and> list_all hexadecimal_digit d
        \<and> list_all hexadecimal_digit e)"

subsection \<open>Content, Memory, createMessageMemory, isMessageMemory\<close>

text \<open>
  \<open>Content\<close> with the optional fields this development reads or writes
  (\<open>tweetId\<close> is one of the additional dynamic properties). An absent field is
  \<open>None\<close>.
\<close>

record Content =
  c_thought :: "string option"
  c_text :: "string option"
  c_actions :: "string list option"
  c_source :: "string option"
  c_url :: "string option"
  c_tweetId :: "string option"

text \<open>\<open>MemoryType\<close> is a string enum and \<open>MemoryScope\<close> a union of string literals.\<close>

definition MemoryType_MESSAGE :: string where
  "MemoryType_MESSAGE = ''message''"

record Metadata =
  md_type :: string
  md_scope :: "string option"
  md_timestamp :: "nat option"

record Memory =
  m_id :: "UUID option"
  m_entityId :: UUID
  m_agentId :: "UUID option"
  m_createdAt :: "nat option"
  m_content :: Content
  m_embedding :: "real list option"
  m_roomId :: UUID
  m_metadata :: "Metadata option"

record MessageMemoryParams =
  p_id :: "UUID option"
  p_entityId :: UUID
  p_agentId :: "UUID option"
  p_roomId :: UUID
  p_content :: Content
  p_embedding :: "real list option"

text \<open>JavaScript truthiness of an optional string: absent and empty are falsy.\<close>

fun truthy :: "string option \<Rightarrow> bool" where
  "truthy None = False"
| "truthy (Some s) = (s \<noteq> [])"

text \<open>The two readings of the clock, \<open>Date.now()\<close>, are arguments.\<close>

definition createMessageMemory :: "MessageMemoryParams \<Rightarrow> nat \<Rightarrow> nat \<Rightarrow> Memory" where
  "createMessageMemory params now1 now2 =
     \<lparr>m_id = p_id params,
      m_entityId = p_entityId params,
      m_agentId = p_agentId params,
      m_createdAt = Some now1,
      m_content = p_content params,
      m_embedding = p_embedding params,
      m_roomId = p_roomId params,
      m_metadata = Some \<lparr>md_type = MemoryType_MESSAGE,
                         md_scope = Some (if truthy (p_agentId params) then ''private''
                                          else ''shared''),
                         md_timestamp = Some now2\<rparr>\<rparr>"

definition isMessageMemory :: "Memory \<Rightarrow> bool" where
  "isMessageMemory memory =
     ((case m_metadata memory of None \<Rightarrow> False | Some md \<Rightarrow> md_type md = MemoryType_MESSAGE)
      \<and> c_text (m_content memory) \<noteq> None)"

text \<open>What the parameter type of \<open>createMessageMemory\<close> asks of its argument:
  \<open>content.text\<close> is a string and \<open>agentId\<close>, when given, is a \<open>UUID\<close>.\<close>

definition params_well_typed :: "MessageMemoryParams \<Rightarrow> bool" where
  "params_well_typed params =
     (c_text (p_content params) \<noteq> None
      \<and> (case p_agentId params of None \<Rightarrow> True | Some a \<Rightarrow> UUID_template a))"

section \<open>State composition\<close>




text \<open>
  Modelled from the spec: the body of \<open>composeState\<close>, of which types.ts holds only the
  declaration in \<open>IAgentRuntime\<close>. The definitions below follow the State Composer of
  the specification sentence by sentence. The providers are given in registration
  order. Positions are integers here. How two text digests are put together is not
  said, so it is the argument \<open>join\<close>.
\<close>














subsection \<open>Three providers\<close>







section \<open>The Twitter post action\<close>

subsection \<open>Rooms, tasks, settings\<close>

datatype ChannelType =
  SELF | DM | GROUP | VOICE_DM | VOICE_GROUP | FEED | THREAD | WORLD | API | FORUM

record Room =
  r_id :: UUID
  r_source :: string
  r_type :: ChannelType
  r_serverId :: "string option"
  r_worldId :: "UUID option"

text \<open>A \<open>Task\<close>; \<open>t_options\<close> is \<open>metadata.options\<close>, a list of names with their
  descriptions.\<close>

record Task =
  t_id :: "UUID option"
  t_name :: string
  t_description :: string
  t_roomId :: "UUID option"
  t_worldId :: "UUID option"
  t_tags :: "string list option"
  t_options :: "(string \<times> string) list option"

text \<open>The \<open>value\<close> of a \<open>Setting\<close> is a string, a boolean or \<open>null\<close>. World settings
  map a setting's name to its value; a name without a setting is \<open>None\<close>.\<close>

datatype SettingValue = VString string | VBoolean bool | VNull

type_synonym WorldSettings = "string \<rightharpoonup> SettingValue"

text \<open>How a template literal renders a setting's value.\<close>

fun render_value :: "SettingValue \<Rightarrow> string" where
  "render_value (VString s) = s"
| "render_value (VBoolean b) = (if b then ''true'' else ''false'')"
| "render_value VNull = ''null''"

subsection \<open>Collaborators\<close>

text \<open>
  The Twitter client manager (the service \<open>twitter\<close>): whether it holds a client for a
  server and an agent, and whether \<open>createClient\<close> yields one for a server.
\<close>

record TwitterManager =
  tm_getClient :: "string \<Rightarrow> UUID \<Rightarrow> bool"
  tm_createClient :: "string \<Rightarrow> bool"

text \<open>
  What the runtime and its collaborators answer. \<open>getUserServerRole\<close>,
  \<open>getWorldSettings\<close>, the database adapter, the model and the Twitter client are not
  part of these sources: their answers are fields of the environment.
  \<open>e_getWorldSettings\<close> and \<open>e_useModel\<close> may reject; \<open>e_sendTweet\<close> is the
  \<open>rest_id\<close> found in the response to a tweet, if any; \<open>e_newTaskId\<close> is the identifier
  the adapter gives to a created task.
\<close>

record Env =
  e_agentId :: UUID
  e_getRoom :: "UUID \<Rightarrow> Room option"
  e_getWorldSettings :: "string \<Rightarrow> error + WorldSettings option"
  e_useModel :: "error + string"
  e_getUserServerRole :: "UUID \<Rightarrow> string \<Rightarrow> string"
  e_messagesManager :: bool
  e_twitterService :: "TwitterManager option"
  e_sendTweet :: "string \<Rightarrow> string option"
  e_newTaskId :: UUID

text \<open>What an invocation does to the outside: replies through the callback, memories
  created, clients created, tweets sent.\<close>

datatype effect =
  Reply Content
| MemoryCreated Memory
| ClientCreated string
| TweetSent string

text \<open>
  The task worker registered under \<open>TWITTER_POST\<close> is a closure over the handler's
  \<open>responseContent\<close>, \<open>worldSettings\<close>, \<open>serverId\<close> and \<open>cleanTweet\<close>.
\<close>

record Worker =
  wk_name :: string
  wk_responseContent :: Content
  wk_worldSettings :: WorldSettings
  wk_serverId :: string
  wk_cleanTweet :: string

text \<open>The state that changes: the task store of the database adapter, the in-memory
  registry of task workers, and the effects so far.\<close>

record World =
  w_tasks :: "Task list"
  w_workers :: "string \<rightharpoonup> Worker"
  w_trace :: "effect list"

definition emit :: "effect \<Rightarrow> World \<Rightarrow> World" where
  "emit x w = w\<lparr>w_trace := w_trace w @ [x]\<rparr>"

text \<open>The callback appends a reply.\<close>

definition callback :: "Content \<Rightarrow> World \<Rightarrow> World" where
  "callback c w = emit (Reply c) w"

text \<open>
  Modelled from the spec: \<open>getTasks\<close> of the storage collaborator, of which types.ts
  holds only the declaration in \<open>IDatabaseAdapter\<close>. It returns the tasks of the given
  room (when one is given) that carry every given tag (when tags are given).
\<close>

definition getTasks :: "World \<Rightarrow> UUID option \<Rightarrow> string list option \<Rightarrow> Task list" where
  "getTasks w roomId tags =
     filter (\<lambda>t. (case roomId of None \<Rightarrow> True | Some r \<Rightarrow> t_roomId t = Some r)
               \<and> (case tags of None \<Rightarrow> True
                   | Some ts \<Rightarrow> list_all (\<lambda>g. g \<in> set (case t_tags t of None \<Rightarrow> [] | Some gs \<Rightarrow> gs)) ts))
       (w_tasks w)"

text \<open>Modelled from the spec: \<open>getTask\<close> of the storage collaborator (declaration
  only in types.ts) finds a task by its identifier, or returns \<open>null\<close>.\<close>

definition getTask :: "World \<Rightarrow> UUID \<Rightarrow> Task option" where
  "getTask w i = find (\<lambda>t. t_id t = Some i) (w_tasks w)"

text \<open>Modelled from the spec: \<open>deleteTask\<close> of the storage collaborator (declaration
  only in types.ts) removes the task with the given identifier.\<close>

definition deleteTask :: "UUID option \<Rightarrow> World \<Rightarrow> World" where
  "deleteTask i w = w\<lparr>w_tasks := filter (\<lambda>t. t_id t \<noteq> i) (w_tasks w)\<rparr>"

text \<open>Modelled from the spec: \<open>createTask\<close> of the storage collaborator (declaration
  only in types.ts) stores the task under the identifier it returns.\<close>

definition createTask :: "Env \<Rightarrow> Task \<Rightarrow> World \<Rightarrow> World" where
  "createTask env t w = w\<lparr>w_tasks := w_tasks w @ [t\<lparr>t_id := Some (e_newTaskId env)\<rparr>]\<rparr>"

text \<open>Modelled from the spec: \<open>getTaskWorker\<close> of the runtime (declaration only in
  types.ts) looks a name up in the in-memory registry of task workers.\<close>

definition getTaskWorker :: "World \<Rightarrow> string \<Rightarrow> Worker option" where
  "getTaskWorker w name = w_workers w name"

text \<open>Modelled from the spec: \<open>registerTaskWorker\<close> of the runtime (declaration only in
  types.ts) binds the worker's name to the worker in that registry.\<close>

definition registerTaskWorker :: "Worker \<Rightarrow> World \<Rightarrow> World" where
  "registerTaskWorker wk w = w\<lparr>w_workers := (w_workers w)(wk_name wk \<mapsto> wk)\<rparr>"

subsection \<open>validateTwitterConfig and ensureTwitterClient\<close>

definition REQUIRED_TWITTER_FIELDS :: "string list" where
  "REQUIRED_TWITTER_FIELDS = [''TWITTER_USERNAME'', ''TWITTER_EMAIL'', ''TWITTER_PASSWORD'']"

record ConfigValidation =
  isValid :: bool
  error_message :: "string option"

text \<open>The loop over the required fields returns at the first one that has no setting
  or whose value is \<open>null\<close>.\<close>

fun check_required :: "WorldSettings \<Rightarrow> string list \<Rightarrow> ConfigValidation" where
  "check_required worldSettings [] = \<lparr>isValid = True, error_message = None\<rparr>"
| "check_required worldSettings (field # more_fields) =
     (if worldSettings field = None \<or> worldSettings field = Some VNull
      then \<lparr>isValid = False,
            error_message = Some (''Missing required Twitter configuration: '' @ field)\<rparr>
      else check_required worldSettings more_fields)"

definition validateTwitterConfig :: "Env \<Rightarrow> string \<Rightarrow> ConfigValidation" where
  "validateTwitterConfig env serverId =
     (case e_getWorldSettings env serverId of
        Inl e \<Rightarrow> \<lparr>isValid = False, error_message = Some ''Error validating Twitter configuration''\<rparr>
      | Inr None \<Rightarrow>
          \<lparr>isValid = False, error_message = Some ''No settings state found for this server''\<rparr>
      | Inr (Some worldSettings) \<Rightarrow> check_required worldSettings REQUIRED_TWITTER_FIELDS)"

text \<open>\<open>ensureTwitterClient\<close> returns the client or throws; a created client is an
  effect.\<close>

definition ensureTwitterClient :: "Env \<Rightarrow> string \<Rightarrow> World \<Rightarrow> (error + unit) \<times> World" where
  "ensureTwitterClient env serverId w =
     (case e_twitterService env of
        None \<Rightarrow> (Inl (Error ''Twitter client manager not found''), w)
      | Some manager \<Rightarrow>
          if tm_getClient manager serverId (e_agentId env) then (Inr (), w)
          else if tm_createClient manager serverId then (Inr (), emit (ClientCreated serverId) w)
          else (Inl (Error ''Failed to create Twitter client''), w))"

subsection \<open>The action's validate\<close>

text \<open>Of the \<open>state\<close> argument the action reads \<open>state.data.room\<close> only, which is
  the argument \<open>state_data_room\<close>. The room is
  \<open>state.data.room ?? (await getRoom(message.roomId))\<close>.\<close>

definition resolve_room :: "Env \<Rightarrow> Room option \<Rightarrow> Memory \<Rightarrow> Room option" where
  "resolve_room env state_data_room message =
     (case state_data_room of Some room \<Rightarrow> Some room | None \<Rightarrow> e_getRoom env (m_roomId message))"

definition validate :: "Env \<Rightarrow> Room option \<Rightarrow> Memory \<Rightarrow> World \<Rightarrow> error + bool" where
  "validate env state_data_room message w =
     (case resolve_room env state_data_room message of
        None \<Rightarrow> Inl (Error ''No room found'')
      | Some room \<Rightarrow>
          if r_type room \<noteq> GROUP then Inr False
          else (case r_serverId room of
                  None \<Rightarrow> Inl (Error ''No server ID found'')
                | Some serverId \<Rightarrow>
                    if serverId = [] then Inl (Error ''No server ID found'')
                    else
                      let pendingTasks =
                            getTasks w (Some (m_roomId message)) (Some [''TWITTER_POST''])
                      in if length pendingTasks > 0 then Inr False
                         else if \<not> isValid (validateTwitterConfig env serverId) then Inr False
                         else Inr True))"

subsection \<open>Cleaning the generated tweet\<close>

text \<open>
  \<open>tweetContent.trim().replace(/^["'](.*)["']$/, "$1").replace(/\\n/g, "\n")\<close>, on
  strings of 8-bit characters: white space is the codes 9 to 13, 32 and 160; the dot
  of the pattern matches anything but a line terminator; the last replacement turns a
  backslash followed by \<open>n\<close> into a line feed.
\<close>

definition js_whitespace :: "char \<Rightarrow> bool" where
  "js_whitespace c = ((of_char c :: nat) \<in> {9, 10, 11, 12, 13, 32, 160})"

definition trim :: "string \<Rightarrow> string" where
  "trim s = rev (dropWhile js_whitespace (rev (dropWhile js_whitespace s)))"

definition line_terminator :: "char \<Rightarrow> bool" where
  "line_terminator c = (c = CHR 0x0A \<or> c = CHR 0x0D)"

definition quote_char :: "char \<Rightarrow> bool" where
  "quote_char c = (c = CHR 0x22 \<or> c = CHR 0x27)"

definition strip_quotes :: "string \<Rightarrow> string" where
  "strip_quotes s =
     (case s of
        [] \<Rightarrow> s
      | c # cs \<Rightarrow>
          if cs \<noteq> [] \<and> quote_char c \<and> quote_char (last cs)
             \<and> list_all (\<lambda>x. \<not> line_terminator x) (butlast cs)
          then butlast cs else s)"

fun unescape_newlines :: "string \<Rightarrow> string" where
  "unescape_newlines (c # d # cs) =
     (if c = CHR 0x5C \<and> d = CHR ''n'' then CHR 0x0A # unescape_newlines cs
      else c # unescape_newlines (d # cs))"
| "unescape_newlines cs = cs"

definition clean_tweet :: "string \<Rightarrow> string" where
  "clean_tweet tweetContent = unescape_newlines (strip_quotes (trim tweetContent))"

subsection \<open>The task worker\<close>

text \<open>
  \<open>worker.execute(runtime, options)\<close> with \<open>opt\<close> for \<open>options.option\<close>. Reading
  \<open>.value\<close> of a setting that the captured world settings do not hold raises a
  \<open>TypeError\<close>. The function never reads or writes the task store.
\<close>

definition no_setting :: error where
  "no_setting = TypeError ''Cannot read properties of undefined (reading 'value')''"

definition worker_execute :: "Env \<Rightarrow> Worker \<Rightarrow> string \<Rightarrow> World \<Rightarrow> (error + unit) \<times> World" where
  "worker_execute env wk opt w =
     (if opt = ''cancel''
      then (Inr (), callback ((wk_responseContent wk)
              \<lparr>c_text := Some ''OK, I won't post it.'',
               c_actions := Some [''TWITTER_POST_CANCELLED'']\<rparr>) w)
      else if opt \<noteq> ''post''
      then (Inr (), callback ((wk_responseContent wk)
              \<lparr>c_text := Some ''Bad choice. Should be 'post' or 'cancel'.'',
               c_actions := Some [''TWITTER_POST_INVALID_OPTION'']\<rparr>) w)
      else (case wk_worldSettings wk ''TWITTER_USERNAME'' of
              None \<Rightarrow> (Inl no_setting, w)
            | Some username \<Rightarrow>
          (case wk_worldSettings wk ''TWITTER_EMAIL'' of
              None \<Rightarrow> (Inl no_setting, w)
            | Some email \<Rightarrow>
          (case wk_worldSettings wk ''TWITTER_PASSWORD'' of
              None \<Rightarrow> (Inl no_setting, w)
            | Some password \<Rightarrow>
          (case wk_worldSettings wk ''TWITTER_2FA_SECRET'' of
              None \<Rightarrow> (Inl no_setting, w)
            | Some secret \<Rightarrow>
          (case ensureTwitterClient env (wk_serverId wk) w of
              (Inl e, w1) \<Rightarrow> (Inl e, w1)
            | (Inr client, w1) \<Rightarrow>
                let w2 = emit (TweetSent (wk_cleanTweet wk)) w1;
                    tweetId = e_sendTweet env (wk_cleanTweet wk);
                    tweetUrl = ''https://twitter.com/'' @ render_value username @ ''/status/''
                                 @ (case tweetId of None \<Rightarrow> ''undefined'' | Some i \<Rightarrow> i)
                in (Inr (), callback ((wk_responseContent wk)
                      \<lparr>c_text := Some tweetUrl, c_url := Some tweetUrl,
                       c_tweetId := tweetId\<rparr>) w2)))))))"

text \<open>\<open>worker.validate(runtime, message, _state)\<close>: neither the state nor any task is
  an argument.\<close>

definition worker_validate :: "Env \<Rightarrow> Worker \<Rightarrow> Memory \<Rightarrow> bool" where
  "worker_validate env wk message =
     (let userRole = e_getUserServerRole env (m_entityId message) (wk_serverId wk)
      in userRole = ''OWNER'' \<or> userRole = ''ADMIN'')"

subsection \<open>The action's handler\<close>

datatype HandlerReturn = ReturnedFalse | ReturnedUndefined | ReturnedContent Content

definition not_group_memory :: "Memory \<Rightarrow> Memory" where
  "not_group_memory message =
     \<lparr>m_id = None,
      m_entityId = m_entityId message,
      m_agentId = m_agentId message,
      m_createdAt = None,
      m_content = \<lparr>c_thought = Some ''I tried to post a tweet but I'm not in a group scenario.'',
                   c_text = None,
                   c_actions = Some [''TWITTER_POST_FAILED''],
                   c_source = c_source (m_content message),
                   c_url = None, c_tweetId = None\<rparr>,
      m_embedding = None,
      m_roomId = m_roomId message,
      m_metadata = Some \<lparr>md_type = ''TWITTER_POST'', md_scope = None, md_timestamp = None\<rparr>\<rparr>"

definition not_authorized_content :: "Memory \<Rightarrow> Content" where
  "not_authorized_content message =
     \<lparr>c_thought = None,
      c_text = Some ''I'm sorry, but you're not authorized to post tweets on behalf of this org.'',
      c_actions = Some [''TWITTER_POST_FAILED''],
      c_source = c_source (m_content message),
      c_url = None, c_tweetId = None\<rparr>"

definition confirmation_task :: "Memory \<Rightarrow> Task" where
  "confirmation_task message =
     \<lparr>t_id = None,
      t_name = ''Confirm Twitter Post'',
      t_description = ''Confirm the tweet to be posted.'',
      t_roomId = Some (m_roomId message),
      t_worldId = None,
      t_tags = Some [''TWITTER_POST'', ''AWAITING_CHOICE''],
      t_options = Some [(''post'', ''Post the tweet to Twitter''),
                        (''cancel'', ''Cancel the tweet and don't post it'')]\<rparr>"

text \<open>\<open>if a task already exists, we need to cancel it\<close>: the handler looks a task up
  by \<open>getTask(message.roomId)\<close> and deletes the one it finds.\<close>

definition cancel_existing_task :: "UUID \<Rightarrow> World \<Rightarrow> World" where
  "cancel_existing_task i w =
     (case getTask w i of
        None \<Rightarrow> w
      | Some existingTask \<Rightarrow> deleteTask (t_id existingTask) w)"

text \<open>
  The handler, from the resolved room on. \<open>responseContent\<close> is one object: the worker
  holds a reference to it, and its text is extended (\<open>Waiting for approval from ...\<close>)
  before the handler next awaits, so that is the content the worker sees whenever it
  runs. \<open>catch\<close> logs and rethrows.
\<close>

definition handler_group ::
  "Env \<Rightarrow> Memory \<Rightarrow> string \<Rightarrow> World \<Rightarrow> (error + HandlerReturn) \<times> World" where
  "handler_group env message serverId w =
     (case e_getWorldSettings env serverId of
        Inl e \<Rightarrow> (Inl e, w)
      | Inr None \<Rightarrow> (Inl (Error ''Twitter not configured for this server''), w)
      | Inr (Some worldSettings) \<Rightarrow>
     (case e_useModel env of
        Inl e \<Rightarrow> (Inl e, w)
      | Inr tweetContent \<Rightarrow>
          let cleanTweet = clean_tweet tweetContent;
              userRole = e_getUserServerRole env (m_entityId message) serverId
          in if userRole \<noteq> ''OWNER'' \<and> userRole \<noteq> ''ADMIN''
             then (Inr ReturnedUndefined, callback (not_authorized_content message) w)
             else
               let responseContent =
                     \<lparr>c_thought = None,
                      c_text = Some (''I'll tweet this:'' @ [CHR 0x0A, CHR 0x0A] @ cleanTweet
                                @ [CHR 0x0A] @ ''Waiting for approval from ''
                                @ (if userRole = ''OWNER'' then ''an admin''
                                   else ''an admin or boss'')),
                      c_actions = Some [''TWITTER_POST''],
                      c_source = c_source (m_content message),
                      c_url = None, c_tweetId = None\<rparr>;
                   w1 = cancel_existing_task (m_roomId message) w;
                   worker = \<lparr>wk_name = ''TWITTER_POST'',
                             wk_responseContent = responseContent,
                             wk_worldSettings = worldSettings,
                             wk_serverId = serverId,
                             wk_cleanTweet = cleanTweet\<rparr>;
                   w2 = (if getTaskWorker w1 ''TWITTER_POST'' = None
                         then registerTaskWorker worker w1 else w1);
                   w3 = createTask env (confirmation_task message) w2;
                   w4 = callback (responseContent
                          \<lparr>c_actions := Some [''TWITTER_POST_TASK_NEEDS_CONFIRM'']\<rparr>) w3
               in (Inr (ReturnedContent responseContent), w4)))"

definition handler ::
  "Env \<Rightarrow> Room option \<Rightarrow> Memory \<Rightarrow> World \<Rightarrow> (error + HandlerReturn) \<times> World" where
  "handler env state_data_room message w =
     (case resolve_room env state_data_room message of
        None \<Rightarrow> (Inl (Error ''No room found''), w)
      | Some room \<Rightarrow>
          if r_type room \<noteq> GROUP
          then (if e_messagesManager env
                then (Inr ReturnedFalse, emit (MemoryCreated (not_group_memory message)) w)
                else (Inl (TypeError ''Cannot read properties of null (reading 'createMemory')''), w))
          else (case r_serverId room of
                  None \<Rightarrow> (Inl (Error ''No server ID found''), w)
                | Some serverId \<Rightarrow>
                    if serverId = [] then (Inl (Error ''No server ID found''), w)
                    else handler_group env message serverId w))"

text \<open>
  Modelled from the spec: the gate of the Action Dispatcher, whose code is not in
  these sources. \<open>validate\<close> runs before \<open>handler\<close>; a \<open>validate\<close> that returns false or
  fails excludes the action for the turn.
\<close>

definition action_path :: "Env \<Rightarrow> Room option \<Rightarrow> Memory \<Rightarrow> World \<Rightarrow> World" where
  "action_path env state_data_room message w =
     (case validate env state_data_room message w of
        Inr True \<Rightarrow> snd (handler env state_data_room message w)
      | Inr False \<Rightarrow> w
      | Inl e \<Rightarrow> w)"

subsection \<open>Observations\<close>

text \<open>The effects an invocation added, the tweets among them, and the content items
  (replies and created memories) that carry a given action tag.\<close>

definition new_effects :: "World \<Rightarrow> World \<Rightarrow> effect list" where
  "new_effects w w' = drop (length (w_trace w)) (w_trace w')"

fun tweets_sent :: "effect list \<Rightarrow> string list" where
  "tweets_sent [] = []"
| "tweets_sent (TweetSent t # xs) = t # tweets_sent xs"
| "tweets_sent (x # xs) = tweets_sent xs"

fun effect_content :: "effect \<Rightarrow> Content option" where
  "effect_content (Reply c) = Some c"
| "effect_content (MemoryCreated m) = Some (m_content m)"
| "effect_content x = None"

definition tagged :: "string \<Rightarrow> effect \<Rightarrow> bool" where
  "tagged tag x =
     (case effect_content x of
        None \<Rightarrow> False
      | Some c \<Rightarrow> (case c_actions c of None \<Rightarrow> False | Some as \<Rightarrow> tag \<in> set as))"

text \<open>The pending confirmation tasks of a room, as \<open>validate\<close> queries them.\<close>

definition pending :: "World \<Rightarrow> UUID \<Rightarrow> Task list" where
  "pending w roomId = getTasks w (Some roomId) (Some [''TWITTER_POST''])"

text \<open>The role test of the handler and of the worker's gate.\<close>

definition authorized :: "Env \<Rightarrow> Memory \<Rightarrow> string \<Rightarrow> bool" where
  "authorized env message serverId =
     (e_getUserServerRole env (m_entityId message) serverId = ''OWNER''
      \<or> e_getUserServerRole env (m_entityId message) serverId = ''ADMIN'')"

text \<open>What the post path of the worker needs: the four settings it reads, and a
  Twitter client for the server, held or created.\<close>

definition post_ready :: "Env \<Rightarrow> Worker \<Rightarrow> bool" where
  "post_ready env wk =
     (wk_worldSettings wk ''TWITTER_USERNAME'' \<noteq> None
      \<and> wk_worldSettings wk ''TWITTER_EMAIL'' \<noteq> None
      \<and> wk_worldSettings wk ''TWITTER_PASSWORD'' \<noteq> None
      \<and> wk_worldSettings wk ''TWITTER_2FA_SECRET'' \<noteq> None
      \<and> (case e_twitterService env of
            None \<Rightarrow> False
          | Some manager \<Rightarrow> tm_getClient manager (wk_serverId wk) (e_agentId env)
                            \<or> tm_createClient manager (wk_serverId wk)))"

text \<open>The two halves of it: the worker's captured settings hold the four entries
  that the post path reads, and the Twitter service is registered and holds, or can
  create, a client for the worker's server.\<close>

definition settings_present :: "Worker \<Rightarrow> bool" where
  "settings_present wk =
     (wk_worldSettings wk ''TWITTER_USERNAME'' \<noteq> None
      \<and> wk_worldSettings wk ''TWITTER_EMAIL'' \<noteq> None
      \<and> wk_worldSettings wk ''TWITTER_PASSWORD'' \<noteq> None
      \<and> wk_worldSettings wk ''TWITTER_2FA_SECRET'' \<noteq> None)"

definition client_available :: "Env \<Rightarrow> Worker \<Rightarrow> bool" where
  "client_available env wk =
     (case e_twitterService env of
        None \<Rightarrow> False
      | Some manager \<Rightarrow> tm_getClient manager (wk_serverId wk) (e_agentId env)
                        \<or> tm_createClient manager (wk_serverId wk))"

subsection \<open>A concrete deployment\<close>

text \<open>
  One group room on one server with complete Twitter settings; the entity
  \<open>owner-0-0-0-1\<close> is the server's owner and everyone else has no role. The model
  answers \<open>"Ship it!"\<close> (in quotes, with a trailing blank). The variants below take the
  Twitter service away, or the room's server identifier.
\<close>

definition example_settings :: WorldSettings where
  "example_settings =
     [''TWITTER_USERNAME'' \<mapsto> VString ''agent'', ''TWITTER_EMAIL'' \<mapsto> VString ''agent@example.org'',
      ''TWITTER_PASSWORD'' \<mapsto> VString ''secret'', ''TWITTER_2FA_SECRET'' \<mapsto> VNull]"

definition example_room :: Room where
  "example_room =
     \<lparr>r_id = ''room-0-0-0-1'', r_source = ''discord'', r_type = GROUP,
      r_serverId = Some ''server-1'', r_worldId = None\<rparr>"

definition example_env :: Env where
  "example_env =
     \<lparr>e_agentId = ''agent-0-0-0-1'',
      e_getRoom = (\<lambda>i. if i = ''room-0-0-0-1'' then Some example_room else None),
      e_getWorldSettings = (\<lambda>serverId. Inr (Some example_settings)),
      e_useModel = Inr ([CHR 0x22] @ ''Ship it!'' @ [CHR 0x22] @ '' ''),
      e_getUserServerRole = (\<lambda>entityId serverId.
         if entityId = ''owner-0-0-0-1'' \<and> serverId = ''server-1'' then ''OWNER'' else ''NONE''),
      e_messagesManager = True,
      e_twitterService = Some \<lparr>tm_getClient = (\<lambda>serverId agentId. False),
                                tm_createClient = (\<lambda>serverId. True)\<rparr>,
      e_sendTweet = (\<lambda>tweet. Some ''1234''),
      e_newTaskId = ''task-0-0-0-1''\<rparr>"

definition example_message :: "UUID \<Rightarrow> Memory" where
  "example_message entityId =
     \<lparr>m_id = None, m_entityId = entityId, m_agentId = Some ''agent-0-0-0-1'',
      m_createdAt = None,
      m_content = \<lparr>c_thought = None, c_text = Some ''You should tweet that'',
                   c_actions = None, c_source = Some ''discord'', c_url = None,
                   c_tweetId = None\<rparr>,
      m_embedding = None, m_roomId = ''room-0-0-0-1'', m_metadata = None\<rparr>"

definition empty_World :: World where
  "empty_World = \<lparr>w_tasks = [], w_workers = Map.empty, w_trace = []\<rparr>"

definition example_content :: Content where
  "example_content =
     \<lparr>c_thought = None,
      c_text = Some (''I'll tweet this:'' @ [CHR 0x0A, CHR 0x0A] @ ''Ship it!'' @ [CHR 0x0A]
                @ ''Waiting for approval from an admin''),
      c_actions = Some [''TWITTER_POST''],
      c_source = Some ''discord'', c_url = None, c_tweetId = None\<rparr>"

definition example_worker :: Worker where
  "example_worker =
     \<lparr>wk_name = ''TWITTER_POST'', wk_responseContent = example_content,
      wk_worldSettings = example_settings, wk_serverId = ''server-1'',
      wk_cleanTweet = ''Ship it!''\<rparr>"

definition example_task :: Task where
  "example_task = (confirmation_task (example_message ''owner-0-0-0-1''))\<lparr>t_id := Some ''task-0-0-0-1''\<rparr>"

text \<open>The world after the owner's request went through the handler.\<close>

definition example_pending_World :: World where
  "example_pending_World =
     \<lparr>w_tasks = [example_task],
      w_workers = [''TWITTER_POST'' \<mapsto> example_worker],
      w_trace = [Reply (example_content\<lparr>c_actions := Some [''TWITTER_POST_TASK_NEEDS_CONFIRM'']\<rparr>)]\<rparr>"

subsection \<open>A second server\<close>

text \<open>
  The same deployment with a second group room, on a second server, whose owner is
  \<open>owner-0-0-0-2\<close>. The identifier that the adapter gives to the next task and the
  model's answer are arguments.
\<close>

definition example_room2 :: Room where
  "example_room2 =
     \<lparr>r_id = ''room-0-0-0-2'', r_source = ''discord'', r_type = GROUP,
      r_serverId = Some ''server-2'', r_worldId = None\<rparr>"

definition two_server_env :: "UUID \<Rightarrow> string \<Rightarrow> Env" where
  "two_server_env newTaskId tweetContent =
     example_env
       \<lparr>e_getRoom := (\<lambda>i. if i = ''room-0-0-0-1'' then Some example_room
                          else if i = ''room-0-0-0-2'' then Some example_room2 else None),
        e_useModel := Inr tweetContent,
        e_getUserServerRole := (\<lambda>entityId serverId.
           if entityId = ''owner-0-0-0-1'' \<and> serverId = ''server-1'' then ''OWNER''
           else if entityId = ''owner-0-0-0-2'' \<and> serverId = ''server-2'' then ''OWNER''
           else ''NONE''),
        e_newTaskId := newTaskId\<rparr>"

definition example_message2 :: "UUID \<Rightarrow> Memory" where
  "example_message2 entityId = (example_message entityId)\<lparr>m_roomId := ''room-0-0-0-2''\<rparr>"

text \<open>The world after the owner of the first server asked in the first room, and then
  the owner of the second server in the second room.\<close>

definition two_requests_World :: World where
  "two_requests_World =
     snd (handler (two_server_env ''task-0-0-0-2'' ''Second!'') None
            (example_message2 ''owner-0-0-0-2'') example_pending_World)"

section \<open>Theorems\<close>

subsection \<open>asUUID\<close>

lemma char_eq_code: "(c = d) = ((of_char c :: nat) = of_char d)"
  by simp

lemma hex_class_digit: "hex_class c = hexadecimal_digit c"
proof -
  have "hexadecimal_digit c \<longleftrightarrow> (of_char c :: nat) \<in> {48,49,50,51,52,53,54,55,56,57,97,98,99,100,101,102,65,66,67,68,69,70}"
    unfolding hexadecimal_digit_def
    apply (simp only: list.set insert_iff empty_iff char_eq_code[of c])
    apply (simp del: of_char_eq_iff)
    done
  also have "\<dots> \<longleftrightarrow> hex_class c"
    unfolding hex_class_def Let_def by (simp; presburger)
  finally show ?thesis by simp
qed

lemma hex_not_dash: "hexadecimal_digit c \<Longrightarrow> c \<noteq> CHR ''-''"
  by (auto simp: hexadecimal_digit_def)

lemma match_hex_iff:
  "match_hex n s = Some r \<longleftrightarrow> (\<exists>a. s = a @ r \<and> length a = n \<and> list_all hexadecimal_digit a)"
proof (induction n arbitrary: s)
  case 0
  then show ?case by auto
next
  case (Suc n)
  show ?case
  proof (cases s)
    case Nil
    then show ?thesis by simp
  next
    case (Cons c cs)
    show ?thesis
    proof
      assume "match_hex (Suc n) s = Some r"
      with Cons have h: "hex_class c" and m: "match_hex n cs = Some r"
        by (auto split: if_splits)
      from m Suc.IH obtain a where "cs = a @ r" "length a = n" "list_all hexadecimal_digit a"
        by blast
      with h Cons have "s = (c # a) @ r \<and> length (c # a) = Suc n \<and> list_all hexadecimal_digit (c # a)"
        by (simp add: hex_class_digit)
      then show "\<exists>a. s = a @ r \<and> length a = Suc n \<and> list_all hexadecimal_digit a" by blast
    next
      assume "\<exists>a. s = a @ r \<and> length a = Suc n \<and> list_all hexadecimal_digit a"
      then obtain a where a: "s = a @ r" "length a = Suc n" "list_all hexadecimal_digit a" by blast
      then obtain x xs where ax: "a = x # xs" by (cases a) auto
      with a Cons have "c = x" "cs = xs @ r" "length xs = n" "list_all hexadecimal_digit xs" "hex_class c"
        by (auto simp: hex_class_digit)
      with Suc.IH[of cs] Cons show "match_hex (Suc n) s = Some r" by auto
    qed
  qed
qed

lemma match_dash_iff: "match_dash s = Some r \<longleftrightarrow> s = CHR ''-'' # r"
  by (cases s) auto

lemma uuid_regex_test_iff: "uuid_regex_test s = groups_8_4_4_4_12 s"
  unfolding uuid_regex_test_def groups_8_4_4_4_12_def
  apply (simp only: bind_eq_Some_conv match_hex_iff match_dash_iff)
  apply (rule iffI)
   apply (elim exE conjE)
   apply (simp; blast)
  apply (elim exE conjE)
  apply (simp; blast?)
  done

lemma split_on_not_Nil: "split_on d s \<noteq> []"
  by (induction s) (auto split: list.splits)

lemma split_on_no_delim: "d \<notin> set a \<Longrightarrow> split_on d a = [a]"
  by (induction a) auto

lemma split_on_append: "d \<notin> set a \<Longrightarrow> split_on d (a @ d # r) = a # split_on d r"
  by (induction a) auto

lemma join_split: "join_with d (split_on d s) = s"
proof (induction s)
  case Nil
  then show ?case by simp
next
  case (Cons c cs)
  obtain w ws where sp: "split_on d cs = w # ws"
    using split_on_not_Nil[of d cs] by (cases "split_on d cs") auto
  with Cons show ?case by (cases ws) auto
qed

lemma hex_no_dash: "list_all hexadecimal_digit a \<Longrightarrow> CHR ''-'' \<notin> set a"
  using hex_not_dash by (auto simp: list_all_iff)

lemma pattern_iff: "pattern_8_4_4_4_12 s = groups_8_4_4_4_12 s"
proof
  assume "groups_8_4_4_4_12 s"
  then obtain a b c d e where s: "s = a @ CHR ''-'' # b @ CHR ''-'' # c @ CHR ''-'' # d @ CHR ''-'' # e"
      and l: "length a = 8" "length b = 4" "length c = 4" "length d = 4" "length e = 12"
      and h: "list_all hexadecimal_digit a" "list_all hexadecimal_digit b" "list_all hexadecimal_digit c"
       "list_all hexadecimal_digit d" "list_all hexadecimal_digit e"
    unfolding groups_8_4_4_4_12_def by blast
  have "split_on CHR ''-'' s = [a, b, c, d, e]"
    unfolding s using h by (simp add: split_on_append split_on_no_delim hex_no_dash)
  with l h show "pattern_8_4_4_4_12 s" by (simp add: pattern_8_4_4_4_12_def)
next
  assume p: "pattern_8_4_4_4_12 s"
  then have m: "map length (split_on CHR ''-'' s) = [8, 4, 4, 4, 12]"
    and h: "list_all hexadecimal_digit (concat (split_on CHR ''-'' s))"
    by (simp_all add: pattern_8_4_4_4_12_def)
  from m obtain a b c d e where sp: "split_on CHR ''-'' s = [a, b, c, d, e]"
    and l: "length a = 8" "length b = 4" "length c = 4" "length d = 4" "length e = 12"
    by (auto simp: map_eq_Cons_conv)
  have "s = join_with CHR ''-'' (split_on CHR ''-'' s)" by (simp add: join_split)
  then have "s = a @ CHR ''-'' # b @ CHR ''-'' # c @ CHR ''-'' # d @ CHR ''-'' # e"
    by (simp add: sp)
  moreover from h sp have "list_all hexadecimal_digit a \<and> list_all hexadecimal_digit b \<and> list_all hexadecimal_digit c
      \<and> list_all hexadecimal_digit d \<and> list_all hexadecimal_digit e" by simp
  ultimately show "groups_8_4_4_4_12 s" unfolding groups_8_4_4_4_12_def using l by blast
qed

text \<open>
  C8. \<open>asUUID\<close> fails fast: it throws an error whose message starts with
  \<open>Invalid UUID format\<close> exactly when its argument is empty or does not match the
  8-4-4-4-12 hexadecimal pattern (in either case of the letters), and otherwise returns
  its argument unchanged.
\<close>

theorem asUUID_fail_fast:
  "asUUID s = (if s = [] \<or> \<not> pattern_8_4_4_4_12 s
               then Inl (Error (''Invalid UUID format: '' @ s)) else Inr s)"
proof -
  have "uuid_regex_test s = pattern_8_4_4_4_12 s"
    by (simp add: uuid_regex_test_iff pattern_iff)
  then show ?thesis
    by (simp add: asUUID_def)
qed

theorem asUUID_fail_fast_witness:
  "asUUID ''123e4567-E89B-12d3-a456-426614174000'' = Inr ''123e4567-E89B-12d3-a456-426614174000''
   \<and> asUUID ''123e4567-E89B-12d3-a456-42661417400g'' = Inl (Error ''Invalid UUID format: 123e4567-E89B-12d3-a456-42661417400g'')
   \<and> asUUID [] = Inl (Error ''Invalid UUID format: '')"
  using asUUID_fail_fast[of "''123e4567-E89B-12d3-a456-426614174000''"]
    asUUID_fail_fast[of "''123e4567-E89B-12d3-a456-42661417400g''"]
    asUUID_fail_fast[of "[]"]
  by (simp add: pattern_8_4_4_4_12_def hexadecimal_digit_def)

subsection \<open>createMessageMemory and isMessageMemory\<close>

text \<open>
  C9. Round trip of the message-memory constructor and its type guard: for every
  argument with a string \<open>content.text\<close> (and an \<open>agentId\<close> of type \<open>UUID\<close> when
  there is one), \<open>isMessageMemory (createMessageMemory params)\<close> holds, the metadata
  type is \<open>MemoryType.MESSAGE\<close>, and the scope is \<open>private\<close> exactly when
  \<open>agentId\<close> is given and \<open>shared\<close> otherwise.
\<close>

theorem createMessageMemory_roundtrip:
  assumes "params_well_typed params"
  shows "isMessageMemory (createMessageMemory params now1 now2)
     \<and> map_option md_type (m_metadata (createMessageMemory params now1 now2)) = Some MemoryType_MESSAGE
     \<and> map_option md_scope (m_metadata (createMessageMemory params now1 now2))
         = Some (Some (if p_agentId params \<noteq> None then ''private'' else ''shared''))"
proof -
  have "truthy (p_agentId params) = (p_agentId params \<noteq> None)"
    using assms by (cases "p_agentId params") (auto simp: params_well_typed_def UUID_template_def)
  then show ?thesis
    using assms by (simp add: params_well_typed_def isMessageMemory_def createMessageMemory_def)
qed


theorem createMessageMemory_roundtrip_witness:
  "params_well_typed
     \<lparr>p_id = None, p_entityId = ''e-1-2-3-4'', p_agentId = Some ''a-1-2-3-4'',
      p_roomId = ''r-1-2-3-4'',
      p_content = \<lparr>c_thought = None, c_text = Some ''hello'', c_actions = None,
                   c_source = None, c_url = None, c_tweetId = None\<rparr>,
      p_embedding = None\<rparr>
   \<and> isMessageMemory (createMessageMemory
     \<lparr>p_id = None, p_entityId = ''e-1-2-3-4'', p_agentId = Some ''a-1-2-3-4'',
      p_roomId = ''r-1-2-3-4'',
      p_content = \<lparr>c_thought = None, c_text = Some ''hello'', c_actions = None,
                   c_source = None, c_url = None, c_tweetId = None\<rparr>,
      p_embedding = None\<rparr> 5 6)
   \<and> map_option md_scope (m_metadata (createMessageMemory
     \<lparr>p_id = None, p_entityId = ''e-1-2-3-4'', p_agentId = Some ''a-1-2-3-4'',
      p_roomId = ''r-1-2-3-4'',
      p_content = \<lparr>c_thought = None, c_text = Some ''hello'', c_actions = None,
                   c_source = None, c_url = None, c_tweetId = None\<rparr>,
      p_embedding = None\<rparr> 5 6)) = Some (Some ''private'')"
proof -
  let ?p = "\<lparr>p_id = None, p_entityId = ''e-1-2-3-4'', p_agentId = Some ''a-1-2-3-4'',
      p_roomId = ''r-1-2-3-4'',
      p_content = \<lparr>c_thought = None, c_text = Some ''hello'', c_actions = None,
                   c_source = None, c_url = None, c_tweetId = None\<rparr>,
      p_embedding = None\<rparr>"
  have wt: "params_well_typed ?p"
    by (simp add: params_well_typed_def UUID_template_def)
  from createMessageMemory_roundtrip [OF wt, of 5 6] wt show ?thesis
    by simp
qed

subsection \<open>Result helpers\<close>


text \<open>
  C10. The Result helpers satisfy their algebra: \<open>success(v).unwrapOr(d) = v\<close>,
  \<open>success(v).map(f)\<close> holds \<open>f(v)\<close> with \<open>isSuccess\<close> true and \<open>isFailure\<close> false;
  \<open>failure(e).unwrapOr(d) = d\<close>, \<open>failure(e).mapError(g)\<close> holds \<open>g(e)\<close> with
  \<open>isFailure\<close> true and \<open>isSuccess\<close> false.
\<close>

theorem result_algebra:
  "Success_unwrapOr (success v) d = v
   \<and> Success_value (Success_map (success v) f) = f v
   \<and> Success_isSuccess (Success_map (success v) f)
   \<and> \<not> Success_isFailure (Success_map (success v) f)
   \<and> Success_isSuccess (success v) \<and> \<not> Success_isFailure (success v)
   \<and> Failure_unwrapOr (failure e) d' = d'
   \<and> Failure_error (Failure_mapError (failure e) g) = g e
   \<and> Failure_isFailure (Failure_mapError (failure e) g)
   \<and> \<not> Failure_isSuccess (Failure_mapError (failure e) g)
   \<and> Failure_isFailure (failure e) \<and> \<not> Failure_isSuccess (failure e)"
  by (simp add: success_def failure_def new_Success_def new_Failure_def Success_map_def
      Success_unwrapOr_def Failure_mapError_def Failure_unwrapOr_def)

subsection \<open>State composition\<close>

lemma sort_key_filter_swap:
  "sort_key f (filter P xs) = filter P (sort_key f xs)"
  by (simp add: filter_sort)





















subsection \<open>The task worker\<close>

lemma new_effects_emit: "new_effects w (emit x w) = [x]"
  by (simp add: new_effects_def emit_def)

lemma new_effects_callback: "new_effects w (callback c w) = [Reply c]"
  by (simp add: callback_def new_effects_emit)

lemma new_effects_emit2: "new_effects w (emit y (emit x w)) = [x, y]"
  by (simp add: new_effects_def emit_def)

lemma new_effects_emit3: "new_effects w (emit z (emit y (emit x w))) = [x, y, z]"
  by (simp add: new_effects_def emit_def)

lemma new_effects_same: "new_effects w w = []"
  by (simp add: new_effects_def)

lemma w_tasks_emit: "w_tasks (emit x w) = w_tasks w"
  by (simp add: emit_def)

lemma w_tasks_callback: "w_tasks (callback c w) = w_tasks w"
  by (simp add: callback_def emit_def)

lemma ensureTwitterClient_cases:
  "ensureTwitterClient env sid w = (Inr (), w)
   \<or> ensureTwitterClient env sid w = (Inr (), emit (ClientCreated sid) w)
   \<or> (\<exists>e. ensureTwitterClient env sid w = (Inl e, w))"
  by (simp add: ensureTwitterClient_def split: option.split)

lemma post_neq_cancel: "''post'' \<noteq> ''cancel''"
  by simp

lemma execute_post_settings:
  assumes "wk_worldSettings wk ''TWITTER_USERNAME'' = Some u"
    "wk_worldSettings wk ''TWITTER_EMAIL'' = Some m"
    "wk_worldSettings wk ''TWITTER_PASSWORD'' = Some p"
    "wk_worldSettings wk ''TWITTER_2FA_SECRET'' = Some f"
  shows "worker_execute env wk ''post'' w =
     (case ensureTwitterClient env (wk_serverId wk) w of
              (Inl e, w1) \<Rightarrow> (Inl e, w1)
            | (Inr client, w1) \<Rightarrow>
                (Inr (), callback ((wk_responseContent wk)
                      \<lparr>c_text := Some (''https://twitter.com/'' @ render_value u @ ''/status/''
                                 @ (case e_sendTweet env (wk_cleanTweet wk) of None \<Rightarrow> ''undefined'' | Some i \<Rightarrow> i)),
                       c_url := Some (''https://twitter.com/'' @ render_value u @ ''/status/''
                                 @ (case e_sendTweet env (wk_cleanTweet wk) of None \<Rightarrow> ''undefined'' | Some i \<Rightarrow> i)),
                       c_tweetId := e_sendTweet env (wk_cleanTweet wk)\<rparr>) (emit (TweetSent (wk_cleanTweet wk)) w1)))"
  unfolding worker_execute_def Let_def
  by (simp only: post_neq_cancel if_False assms option.case simp_thms)

lemma execute_post_no_setting:
  assumes "wk_worldSettings wk ''TWITTER_USERNAME'' = None
    \<or> wk_worldSettings wk ''TWITTER_EMAIL'' = None
    \<or> wk_worldSettings wk ''TWITTER_PASSWORD'' = None
    \<or> wk_worldSettings wk ''TWITTER_2FA_SECRET'' = None"
  shows "worker_execute env wk ''post'' w = (Inl no_setting, w)"
  unfolding worker_execute_def Let_def
  apply (simp only: post_neq_cancel if_False simp_thms)
  using assms
  apply (cases "wk_worldSettings wk ''TWITTER_USERNAME''"; cases "wk_worldSettings wk ''TWITTER_EMAIL''";
      cases "wk_worldSettings wk ''TWITTER_PASSWORD''"; cases "wk_worldSettings wk ''TWITTER_2FA_SECRET''")
  apply (simp_all only: option.case simp_thms option.distinct)
  done


lemma execute_cancel:
  "worker_execute env wk ''cancel'' w =
     (Inr (), callback ((wk_responseContent wk)
              \<lparr>c_text := Some ''OK, I won't post it.'',
               c_actions := Some [''TWITTER_POST_CANCELLED'']\<rparr>) w)"
  unfolding worker_execute_def by (simp only: if_True simp_thms)

lemma execute_invalid:
  assumes "opt \<noteq> ''cancel''" "opt \<noteq> ''post''"
  shows "worker_execute env wk opt w =
     (Inr (), callback ((wk_responseContent wk)
              \<lparr>c_text := Some ''Bad choice. Should be 'post' or 'cancel'.'',
               c_actions := Some [''TWITTER_POST_INVALID_OPTION'']\<rparr>) w)"
  unfolding worker_execute_def using assms by (simp only: if_True if_False simp_thms)

lemma execute_post_ready:
  assumes "post_ready env wk"
  shows "fst (worker_execute env wk ''post'' w) = Inr ()
     \<and> tweets_sent (new_effects w (snd (worker_execute env wk ''post'' w))) = [wk_cleanTweet wk]"
proof -
  from assms obtain u m p f manager where
    s: "wk_worldSettings wk ''TWITTER_USERNAME'' = Some u"
    "wk_worldSettings wk ''TWITTER_EMAIL'' = Some m"
    "wk_worldSettings wk ''TWITTER_PASSWORD'' = Some p"
    "wk_worldSettings wk ''TWITTER_2FA_SECRET'' = Some f"
    and tm: "e_twitterService env = Some manager"
    and cl: "tm_getClient manager (wk_serverId wk) (e_agentId env) \<or> tm_createClient manager (wk_serverId wk)"
    unfolding post_ready_def by (auto split: option.splits)
  from tm cl have "ensureTwitterClient env (wk_serverId wk) w = (Inr (), w)
      \<or> ensureTwitterClient env (wk_serverId wk) w = (Inr (), emit (ClientCreated (wk_serverId wk)) w)"
    by (auto simp: ensureTwitterClient_def)
  then show ?thesis
    by (auto simp: execute_post_settings[OF s] callback_def new_effects_emit2 new_effects_emit3)
qed

lemma execute_post_not_ready:
  assumes "\<not> post_ready env wk"
  shows "isl (fst (worker_execute env wk ''post'' w))
     \<and> snd (worker_execute env wk ''post'' w) = w"
proof (cases "wk_worldSettings wk ''TWITTER_USERNAME'' = None
    \<or> wk_worldSettings wk ''TWITTER_EMAIL'' = None
    \<or> wk_worldSettings wk ''TWITTER_PASSWORD'' = None
    \<or> wk_worldSettings wk ''TWITTER_2FA_SECRET'' = None")
  case True
  then show ?thesis by (simp add: execute_post_no_setting)
next
  case False
  then obtain u m p f where
    s: "wk_worldSettings wk ''TWITTER_USERNAME'' = Some u"
    "wk_worldSettings wk ''TWITTER_EMAIL'' = Some m"
    "wk_worldSettings wk ''TWITTER_PASSWORD'' = Some p"
    "wk_worldSettings wk ''TWITTER_2FA_SECRET'' = Some f"
    by auto
  with assms have "\<exists>e. ensureTwitterClient env (wk_serverId wk) w = (Inl e, w)"
    by (auto simp: post_ready_def ensureTwitterClient_def split: option.splits)
  then show ?thesis
    by (auto simp: execute_post_settings[OF s])
qed

lemma worker_execute_tasks:
  "w_tasks (snd (worker_execute env wk opt w)) = w_tasks w"
proof -
  consider "opt = ''cancel''" | "opt \<noteq> ''cancel''" "opt \<noteq> ''post''"
    | "opt = ''post''" "post_ready env wk" | "opt = ''post''" "\<not> post_ready env wk"
    by blast
  then show ?thesis
  proof cases
    case 1
    then show ?thesis by (simp add: execute_cancel w_tasks_callback)
  next
    case 2
    then show ?thesis by (simp add: execute_invalid w_tasks_callback)
  next
    case 3
    then obtain u m p f where
      s: "wk_worldSettings wk ''TWITTER_USERNAME'' = Some u"
      "wk_worldSettings wk ''TWITTER_EMAIL'' = Some m"
      "wk_worldSettings wk ''TWITTER_PASSWORD'' = Some p"
      "wk_worldSettings wk ''TWITTER_2FA_SECRET'' = Some f"
      unfolding post_ready_def by auto
    from ensureTwitterClient_cases[of env "wk_serverId wk" w] 3(1) show ?thesis
      by (auto simp: execute_post_settings[OF s] w_tasks_callback w_tasks_emit)
  next
    case 4
    then show ?thesis using execute_post_not_ready[of env wk w] by simp
  qed
qed

lemma example_worker_settings:
  "wk_worldSettings example_worker ''TWITTER_USERNAME'' = Some (VString ''agent'')"
  "wk_worldSettings example_worker ''TWITTER_EMAIL'' = Some (VString ''agent@example.org'')"
  "wk_worldSettings example_worker ''TWITTER_PASSWORD'' = Some (VString ''secret'')"
  "wk_worldSettings example_worker ''TWITTER_2FA_SECRET'' = Some VNull"
  by (simp_all add: example_worker_def example_settings_def)

text \<open>
  As first stated, C1 has a tweet sent whenever the option is \<open>post\<close>. Without a
  registered Twitter service the post path throws before it sends anything.
\<close>

theorem post_without_twitter_service:
  "worker_execute (example_env\<lparr>e_twitterService := None\<rparr>) example_worker ''post''
       example_pending_World
     = (Inl (Error ''Twitter client manager not found''), example_pending_World)
   \<and> tweets_sent (new_effects example_pending_World
         (snd (worker_execute (example_env\<lparr>e_twitterService := None\<rparr>) example_worker ''post''
                example_pending_World))) = []"
proof -
  have "worker_execute (example_env\<lparr>e_twitterService := None\<rparr>) example_worker ''post''
       example_pending_World
     = (Inl (Error ''Twitter client manager not found''), example_pending_World)"
    by (simp add: execute_post_settings[OF example_worker_settings]
        ensureTwitterClient_def example_env_def)
  then show ?thesis by (simp add: new_effects_same)
qed

lemma post_ready_iff: "post_ready env wk = (settings_present wk \<and> client_available env wk)"
  by (simp add: post_ready_def settings_present_def client_available_def)

lemma execute_post_no_client:
  assumes sp: "settings_present wk" and nc: "\<not> client_available env wk"
  shows "worker_execute env wk ''post'' w = (Inl (Error ''Twitter client manager not found''), w)
         \<or> worker_execute env wk ''post'' w = (Inl (Error ''Failed to create Twitter client''), w)"
proof -
  from sp obtain u m p f where
    s: "wk_worldSettings wk ''TWITTER_USERNAME'' = Some u"
    "wk_worldSettings wk ''TWITTER_EMAIL'' = Some m"
    "wk_worldSettings wk ''TWITTER_PASSWORD'' = Some p"
    "wk_worldSettings wk ''TWITTER_2FA_SECRET'' = Some f"
    unfolding settings_present_def by auto
  from nc have "ensureTwitterClient env (wk_serverId wk) w
                  = (Inl (Error ''Twitter client manager not found''), w)
                \<or> ensureTwitterClient env (wk_serverId wk) w
                  = (Inl (Error ''Failed to create Twitter client''), w)"
    by (auto simp: client_available_def ensureTwitterClient_def split: option.splits)
  then show ?thesis
    by (auto simp: execute_post_settings[OF s])
qed

lemma no_tweet_without_post:
  assumes "opt \<noteq> ''post''"
  shows "tweets_sent (new_effects w (snd (worker_execute env wk opt w))) = []"
proof (cases "opt = ''cancel''")
  case True
  then show ?thesis by (simp add: execute_cancel new_effects_callback)
next
  case False
  with assms show ?thesis by (simp add: execute_invalid new_effects_callback)
qed

text \<open>
  C1 (amended). For the worker registered under \<open>TWITTER_POST\<close>: with the option
  \<open>cancel\<close>, \<open>execute\<close> runs only the cancel path: it returns after exactly one reply,
  tagged \<open>TWITTER_POST_CANCELLED\<close>. With any option other than \<open>cancel\<close> and \<open>post\<close> it
  returns after exactly one reply, tagged \<open>TWITTER_POST_INVALID_OPTION\<close>, and sends
  nothing. A tweet is sent (\<open>sendTweet\<close> is called) only if the option is exactly
  \<open>post\<close>. With \<open>post\<close>, and the four Twitter settings in the captured world settings,
  the tweet is sent exactly when the Twitter service is registered and holds or can
  create a client for the server; when it is not, \<open>execute\<close> throws
  \<open>Twitter client manager not found\<close> or \<open>Failed to create Twitter client\<close> and sends
  nothing.
\<close>

theorem worker_execute_dispatch:
  "(opt = ''cancel'' \<longrightarrow>
      fst (worker_execute env wk opt w) = Inr ()
      \<and> new_effects w (snd (worker_execute env wk opt w))
          = [Reply ((wk_responseContent wk)\<lparr>c_text := Some ''OK, I won't post it.'',
                      c_actions := Some [''TWITTER_POST_CANCELLED'']\<rparr>)])
   \<and> (opt \<noteq> ''cancel'' \<and> opt \<noteq> ''post'' \<longrightarrow>
      fst (worker_execute env wk opt w) = Inr ()
      \<and> new_effects w (snd (worker_execute env wk opt w))
          = [Reply ((wk_responseContent wk)
                      \<lparr>c_text := Some ''Bad choice. Should be 'post' or 'cancel'.'',
                       c_actions := Some [''TWITTER_POST_INVALID_OPTION'']\<rparr>)])
   \<and> (tweets_sent (new_effects w (snd (worker_execute env wk opt w))) \<noteq> [] \<longrightarrow> opt = ''post'')
   \<and> (opt = ''post'' \<and> settings_present wk \<and> client_available env wk \<longrightarrow>
        fst (worker_execute env wk opt w) = Inr ()
        \<and> tweets_sent (new_effects w (snd (worker_execute env wk opt w))) = [wk_cleanTweet wk])
   \<and> (opt = ''post'' \<and> settings_present wk \<and> \<not> client_available env wk \<longrightarrow>
        (fst (worker_execute env wk opt w) = Inl (Error ''Twitter client manager not found'')
         \<or> fst (worker_execute env wk opt w) = Inl (Error ''Failed to create Twitter client''))
        \<and> snd (worker_execute env wk opt w) = w
        \<and> tweets_sent (new_effects w (snd (worker_execute env wk opt w))) = [])"
proof (intro conjI impI)
  assume "opt = ''cancel''"
  then show "fst (worker_execute env wk opt w) = Inr ()"
    and "new_effects w (snd (worker_execute env wk opt w))
          = [Reply ((wk_responseContent wk)\<lparr>c_text := Some ''OK, I won't post it.'',
                      c_actions := Some [''TWITTER_POST_CANCELLED'']\<rparr>)]"
    by (simp_all add: execute_cancel new_effects_callback)
next
  assume "opt \<noteq> ''cancel'' \<and> opt \<noteq> ''post''"
  then show "fst (worker_execute env wk opt w) = Inr ()"
    and "new_effects w (snd (worker_execute env wk opt w))
          = [Reply ((wk_responseContent wk)
                      \<lparr>c_text := Some ''Bad choice. Should be 'post' or 'cancel'.'',
                       c_actions := Some [''TWITTER_POST_INVALID_OPTION'']\<rparr>)]"
    by (simp_all add: execute_invalid new_effects_callback)
next
  assume "tweets_sent (new_effects w (snd (worker_execute env wk opt w))) \<noteq> []"
  then show "opt = ''post''"
    using no_tweet_without_post[of opt w env wk] by blast
next
  assume a: "opt = ''post'' \<and> settings_present wk \<and> client_available env wk"
  then have "post_ready env wk" by (simp add: post_ready_iff)
  from execute_post_ready[OF this, of w] a
  show "fst (worker_execute env wk opt w) = Inr ()"
    and "tweets_sent (new_effects w (snd (worker_execute env wk opt w))) = [wk_cleanTweet wk]"
    by simp_all
next
  assume a: "opt = ''post'' \<and> settings_present wk \<and> \<not> client_available env wk"
  with execute_post_no_client[of wk env w]
  have r: "worker_execute env wk opt w = (Inl (Error ''Twitter client manager not found''), w)
         \<or> worker_execute env wk opt w = (Inl (Error ''Failed to create Twitter client''), w)"
    by simp
  then show "fst (worker_execute env wk opt w) = Inl (Error ''Twitter client manager not found'')
         \<or> fst (worker_execute env wk opt w) = Inl (Error ''Failed to create Twitter client'')"
    by auto
  from r show "snd (worker_execute env wk opt w) = w"
    by auto
  from r show "tweets_sent (new_effects w (snd (worker_execute env wk opt w))) = []"
    by (auto simp: new_effects_same)
qed

theorem worker_execute_dispatch_witness:
  "settings_present example_worker
   \<and> client_available example_env example_worker
   \<and> \<not> client_available (example_env\<lparr>e_twitterService := None\<rparr>) example_worker
   \<and> tweets_sent (new_effects example_pending_World
        (snd (worker_execute example_env example_worker ''post'' example_pending_World)))
       = [''Ship it!'']
   \<and> snd (worker_execute (example_env\<lparr>e_twitterService := None\<rparr>) example_worker ''post''
        example_pending_World) = example_pending_World
   \<and> new_effects example_pending_World
        (snd (worker_execute example_env example_worker ''cancel'' example_pending_World))
       = [Reply (example_content\<lparr>c_text := Some ''OK, I won't post it.'',
                   c_actions := Some [''TWITTER_POST_CANCELLED'']\<rparr>)]
   \<and> new_effects example_pending_World
        (snd (worker_execute example_env example_worker ''maybe'' example_pending_World))
       = [Reply (example_content\<lparr>c_text := Some ''Bad choice. Should be 'post' or 'cancel'.'',
                   c_actions := Some [''TWITTER_POST_INVALID_OPTION'']\<rparr>)]"
proof -
  have sp: "settings_present example_worker"
    by (simp add: settings_present_def example_worker_settings)
  have ca: "client_available example_env example_worker"
    by (simp add: client_available_def example_env_def)
  have nc: "\<not> client_available (example_env\<lparr>e_twitterService := None\<rparr>) example_worker"
    by (simp add: client_available_def)
  have rc: "wk_responseContent example_worker = example_content"
    and ct: "wk_cleanTweet example_worker = ''Ship it!''"
    by (simp_all add: example_worker_def)
  note p = worker_execute_dispatch [of "''post''" example_env example_worker example_pending_World]
  note q = worker_execute_dispatch [of "''post''" "example_env\<lparr>e_twitterService := None\<rparr>"
      example_worker example_pending_World]
  note c = worker_execute_dispatch [of "''cancel''" example_env example_worker example_pending_World]
  note m = worker_execute_dispatch [of "''maybe''" example_env example_worker example_pending_World]
  from p sp ca have 1: "tweets_sent (new_effects example_pending_World
        (snd (worker_execute example_env example_worker ''post'' example_pending_World)))
       = [''Ship it!'']"
    by (simp add: ct)
  from q sp nc have 2: "snd (worker_execute (example_env\<lparr>e_twitterService := None\<rparr>)
        example_worker ''post'' example_pending_World) = example_pending_World"
    by simp
  from c have 3: "new_effects example_pending_World
        (snd (worker_execute example_env example_worker ''cancel'' example_pending_World))
       = [Reply (example_content\<lparr>c_text := Some ''OK, I won't post it.'',
                   c_actions := Some [''TWITTER_POST_CANCELLED'']\<rparr>)]"
    by (simp add: rc)
  from m have 4: "new_effects example_pending_World
        (snd (worker_execute example_env example_worker ''maybe'' example_pending_World))
       = [Reply (example_content\<lparr>c_text := Some ''Bad choice. Should be 'post' or 'cancel'.'',
                   c_actions := Some [''TWITTER_POST_INVALID_OPTION'']\<rparr>)]"
    by (simp add: rc)
  from sp ca nc 1 2 3 4 show ?thesis by blast
qed

text \<open>
  As first stated, C4 has the worker delete the task once it is resolved. The task
  that the handler created for the owner's request is still pending after the worker
  ran with \<open>cancel\<close>, and after it ran with \<open>post\<close>.
\<close>

theorem task_still_pending_after_resolution:
  "fst (worker_execute example_env example_worker ''cancel'' example_pending_World) = Inr ()
   \<and> pending (snd (worker_execute example_env example_worker ''cancel'' example_pending_World))
        ''room-0-0-0-1'' = [example_task]
   \<and> fst (worker_execute example_env example_worker ''post'' example_pending_World) = Inr ()
   \<and> pending (snd (worker_execute example_env example_worker ''post'' example_pending_World))
        ''room-0-0-0-1'' = [example_task]"
proof -
  have p: "pending w ''room-0-0-0-1'' = [example_task]" if "w_tasks w = [example_task]" for w
    using that
    by (simp add: pending_def getTasks_def example_task_def confirmation_task_def
        example_message_def)
  have t: "w_tasks example_pending_World = [example_task]"
    by (simp add: example_pending_World_def)
  have r: "post_ready example_env example_worker"
    by (simp add: post_ready_def example_env_def example_worker_def example_settings_def)
  have c: "fst (worker_execute example_env example_worker ''cancel'' example_pending_World) = Inr ()"
    by (simp add: execute_cancel)
  from execute_post_ready[OF r, of example_pending_World]
  have d: "fst (worker_execute example_env example_worker ''post'' example_pending_World) = Inr ()"
    by blast
  have "pending (snd (worker_execute example_env example_worker opt example_pending_World))
          ''room-0-0-0-1'' = [example_task]" for opt
    by (rule p) (simp add: worker_execute_tasks t)
  with c d show ?thesis by blast
qed

text \<open>
  C4 (amended). The worker's \<open>execute\<close> never deletes the Task record, nor changes
  the task store in any other way: whatever the option, \<open>post\<close> and \<open>cancel\<close>
  included, the tasks after \<open>execute\<close> are the tasks before it, so a task tagged
  \<open>TWITTER_POST\<close> that was pending for the room is pending still.
\<close>

theorem worker_execute_keeps_tasks:
  "w_tasks (snd (worker_execute env wk opt w)) = w_tasks w
   \<and> pending (snd (worker_execute env wk opt w)) roomId = pending w roomId"
proof -
  have t: "w_tasks (snd (worker_execute env wk opt w)) = w_tasks w"
    by (rule worker_execute_tasks)
  then have "getTasks (snd (worker_execute env wk opt w)) r g = getTasks w r g" for r g
    by (simp add: getTasks_def)
  with t show ?thesis
    by (simp add: pending_def)
qed

subsection \<open>The handler\<close>

lemma find_None_filter: "find P xs = None \<Longrightarrow> filter (\<lambda>x. \<not> P x) xs = xs"
  by (induction xs) (auto split: if_splits)

lemma find_Some_holds: "find P xs = Some x \<Longrightarrow> P x"
  by (induction xs) (auto split: if_splits)

lemma existing_task_removed:
  "w_tasks (cancel_existing_task i w)
     = filter (\<lambda>t. t_id t \<noteq> Some i) (w_tasks w)"
proof (cases "getTask w i")
  case None
  then show ?thesis
    using find_None_filter[of "\<lambda>t. t_id t = Some i" "w_tasks w"]
    by (simp add: getTask_def cancel_existing_task_def)
next
  case (Some t)
  then have "t_id t = Some i"
    using find_Some_holds[of "\<lambda>t. t_id t = Some i" "w_tasks w" t] by (simp add: getTask_def)
  with Some show ?thesis by (simp add: deleteTask_def cancel_existing_task_def)
qed

lemma existing_task_workers:
  "w_workers (cancel_existing_task i w) = w_workers w"
  by (simp add: cancel_existing_task_def deleteTask_def split: option.split)

lemma existing_task_trace:
  "w_trace (cancel_existing_task i w) = w_trace w"
  by (simp add: cancel_existing_task_def deleteTask_def split: option.split)

lemma handler_group_unauthorized:
  assumes "\<not> authorized env message serverId"
  shows "(\<exists>e. handler_group env message serverId w = (Inl e, w))
       \<or> handler_group env message serverId w
           = (Inr ReturnedUndefined, callback (not_authorized_content message) w)"
  using assms unfolding handler_group_def authorized_def Let_def
  by (simp split: sum.split option.split)

lemma handler_group_authorized:
  assumes "authorized env message serverId"
  shows "(\<exists>e. handler_group env message serverId w = (Inl e, w))
       \<or> (\<exists>c w'. handler_group env message serverId w = (Inr (ReturnedContent c), w')
            \<and> w_tasks w' = filter (\<lambda>t. t_id t \<noteq> Some (m_roomId message)) (w_tasks w)
                  @ [(confirmation_task message)\<lparr>t_id := Some (e_newTaskId env)\<rparr>]
            \<and> (getTaskWorker w ''TWITTER_POST'' = None \<longrightarrow>
                 (\<exists>wk. getTaskWorker w' ''TWITTER_POST'' = Some wk \<and> wk_serverId wk = serverId)))"
  using assms unfolding handler_group_def authorized_def Let_def
  by (auto simp: createTask_def w_tasks_callback existing_task_removed getTaskWorker_def
      registerTaskWorker_def existing_task_workers callback_def emit_def
      split: sum.split option.split)


lemma handler_cases:
  "(\<exists>e. handler env sroom message w = (Inl e, w))
   \<or> (\<exists>room. resolve_room env sroom message = Some room \<and> r_type room \<noteq> GROUP
         \<and> handler env sroom message w
             = (Inr ReturnedFalse, emit (MemoryCreated (not_group_memory message)) w))
   \<or> (\<exists>room serverId. resolve_room env sroom message = Some room \<and> r_type room = GROUP
         \<and> r_serverId room = Some serverId \<and> serverId \<noteq> []
         \<and> handler env sroom message w = handler_group env message serverId w)"
  unfolding handler_def
  by (simp split: option.split)

lemma tagged_not_group: "tagged ''TWITTER_POST_FAILED'' (MemoryCreated (not_group_memory message))"
  by (simp add: tagged_def not_group_memory_def)

lemma tagged_not_authorized: "tagged ''TWITTER_POST_FAILED'' (Reply (not_authorized_content message))"
  by (simp add: tagged_def not_authorized_content_def)

lemma handler_not_group:
  assumes "resolve_room env sroom message = Some room" "r_type room \<noteq> GROUP"
    "e_messagesManager env"
  shows "handler env sroom message w
           = (Inr ReturnedFalse, emit (MemoryCreated (not_group_memory message)) w)"
  using assms by (simp add: handler_def)

lemma handler_group_room:
  assumes "resolve_room env sroom message = Some room" "r_type room = GROUP"
    "r_serverId room = Some serverId" "serverId \<noteq> []"
  shows "handler env sroom message w = handler_group env message serverId w"
  using assms by (simp add: handler_def)

lemma handler_no_server:
  assumes "resolve_room env sroom message = Some room" "r_type room = GROUP"
    "\<not> truthy (r_serverId room)"
  shows "handler env sroom message w = (Inl (Error ''No server ID found''), w)"
  using assms by (cases "r_serverId room") (simp_all add: handler_def)

lemma handler_group_no_settings:
  assumes "e_getWorldSettings env serverId = Inr None"
  shows "handler_group env message serverId w
           = (Inl (Error ''Twitter not configured for this server''), w)"
  using assms by (simp add: handler_group_def)

lemma handler_group_refuses:
  assumes "e_getWorldSettings env serverId = Inr (Some worldSettings)"
    "e_useModel env = Inr tweetContent" "\<not> authorized env message serverId"
  shows "handler_group env message serverId w
           = (Inr ReturnedUndefined, callback (not_authorized_content message) w)"
  using assms unfolding handler_group_def authorized_def Let_def by simp

text \<open>
  As first stated, C7 has the handler leave a \<open>TWITTER_POST_FAILED\<close> item whenever the
  requesting entity's role is neither \<open>OWNER\<close> nor \<open>ADMIN\<close>. In a group room of a server
  without world settings the handler throws \<open>Twitter not configured for this server\<close>
  before it looks at the role, and leaves no item.
\<close>

theorem unauthorized_without_settings_throws:
  "resolve_room (example_env\<lparr>e_getWorldSettings := (\<lambda>serverId. Inr None)\<rparr>) None
       (example_message ''guest-0-0-0-1'') = Some example_room
   \<and> r_type example_room = GROUP
   \<and> e_getUserServerRole (example_env\<lparr>e_getWorldSettings := (\<lambda>serverId. Inr None)\<rparr>)
        (m_entityId (example_message ''guest-0-0-0-1'')) ''server-1'' = ''NONE''
   \<and> handler (example_env\<lparr>e_getWorldSettings := (\<lambda>serverId. Inr None)\<rparr>) None
        (example_message ''guest-0-0-0-1'') empty_World
       = (Inl (Error ''Twitter not configured for this server''), empty_World)
   \<and> new_effects empty_World
        (snd (handler (example_env\<lparr>e_getWorldSettings := (\<lambda>serverId. Inr None)\<rparr>) None
                (example_message ''guest-0-0-0-1'') empty_World)) = []"
proof -
  let ?env = "example_env\<lparr>e_getWorldSettings := (\<lambda>serverId. Inr None)\<rparr>"
  let ?m = "example_message ''guest-0-0-0-1''"
  have room: "resolve_room ?env None ?m = Some example_room"
    by (simp add: resolve_room_def example_env_def example_message_def)
  have grp: "r_type example_room = GROUP" and sid: "r_serverId example_room = Some ''server-1''"
    by (simp_all add: example_room_def)
  have role: "e_getUserServerRole ?env (m_entityId ?m) ''server-1'' = ''NONE''"
    by (simp add: example_env_def example_message_def)
  have "handler ?env None ?m empty_World
          = (Inl (Error ''Twitter not configured for this server''), empty_World)"
    by (simp add: handler_group_room[OF room grp sid] handler_group_no_settings)
  with room grp role show ?thesis
    by (simp add: new_effects_same)
qed

text \<open>
  C7 (amended). When the room is not a GROUP channel (and the runtime has a
  \<open>messages\<close> memory manager), the handler creates a memory whose actions include
  \<open>TWITTER_POST_FAILED\<close> and returns \<open>false\<close>. When the room is a GROUP channel with a
  server identifier, the world settings of the server exist, the model has answered,
  and the requesting entity's role is neither \<open>OWNER\<close> nor \<open>ADMIN\<close>, the handler replies
  with a content item whose actions include \<open>TWITTER_POST_FAILED\<close> and returns nothing.
  In both cases that item is all the handler produces, and no task is created. A GROUP
  room without a server identifier, or a server without world settings, makes the
  handler throw \<open>No server ID found\<close> or \<open>Twitter not configured for this server\<close>
  before the role is looked at, with no item produced.
\<close>

theorem handler_decline_reports_failure:
  assumes room: "resolve_room env state_data_room message = Some room"
  shows
    "(r_type room \<noteq> GROUP \<and> e_messagesManager env \<longrightarrow>
        fst (handler env state_data_room message w) = Inr ReturnedFalse
        \<and> new_effects w (snd (handler env state_data_room message w))
            = [MemoryCreated (not_group_memory message)]
        \<and> tagged ''TWITTER_POST_FAILED'' (MemoryCreated (not_group_memory message))
        \<and> w_tasks (snd (handler env state_data_room message w)) = w_tasks w)
     \<and> (\<forall>serverId worldSettings tweetContent.
          r_type room = GROUP \<and> r_serverId room = Some serverId \<and> serverId \<noteq> []
          \<and> e_getWorldSettings env serverId = Inr (Some worldSettings)
          \<and> e_useModel env = Inr tweetContent
          \<and> e_getUserServerRole env (m_entityId message) serverId \<noteq> ''OWNER''
          \<and> e_getUserServerRole env (m_entityId message) serverId \<noteq> ''ADMIN'' \<longrightarrow>
            fst (handler env state_data_room message w) = Inr ReturnedUndefined
            \<and> new_effects w (snd (handler env state_data_room message w))
                = [Reply (not_authorized_content message)]
            \<and> tagged ''TWITTER_POST_FAILED'' (Reply (not_authorized_content message))
            \<and> w_tasks (snd (handler env state_data_room message w)) = w_tasks w)
     \<and> (r_type room = GROUP \<and> \<not> truthy (r_serverId room) \<longrightarrow>
          handler env state_data_room message w = (Inl (Error ''No server ID found''), w))
     \<and> (\<forall>serverId.
          r_type room = GROUP \<and> r_serverId room = Some serverId \<and> serverId \<noteq> []
          \<and> e_getWorldSettings env serverId = Inr None \<longrightarrow>
            handler env state_data_room message w
              = (Inl (Error ''Twitter not configured for this server''), w))"
proof (intro conjI allI impI)
  assume a: "r_type room \<noteq> GROUP \<and> e_messagesManager env"
  then have h: "handler env state_data_room message w
                  = (Inr ReturnedFalse, emit (MemoryCreated (not_group_memory message)) w)"
    using room by (simp add: handler_not_group)
  show "fst (handler env state_data_room message w) = Inr ReturnedFalse"
    by (simp add: h)
  show "new_effects w (snd (handler env state_data_room message w))
          = [MemoryCreated (not_group_memory message)]"
    by (simp add: h new_effects_emit)
  show "tagged ''TWITTER_POST_FAILED'' (MemoryCreated (not_group_memory message))"
    by (rule tagged_not_group)
  show "w_tasks (snd (handler env state_data_room message w)) = w_tasks w"
    by (simp add: h w_tasks_emit)
next
  fix serverId worldSettings tweetContent
  assume a: "r_type room = GROUP \<and> r_serverId room = Some serverId \<and> serverId \<noteq> []
          \<and> e_getWorldSettings env serverId = Inr (Some worldSettings)
          \<and> e_useModel env = Inr tweetContent
          \<and> e_getUserServerRole env (m_entityId message) serverId \<noteq> ''OWNER''
          \<and> e_getUserServerRole env (m_entityId message) serverId \<noteq> ''ADMIN''"
  then have na: "\<not> authorized env message serverId"
    by (simp add: authorized_def)
  from a have "handler env state_data_room message w = handler_group env message serverId w"
    using room by (simp add: handler_group_room)
  with a na have h: "handler env state_data_room message w
                  = (Inr ReturnedUndefined, callback (not_authorized_content message) w)"
    by (simp add: handler_group_refuses)
  show "fst (handler env state_data_room message w) = Inr ReturnedUndefined"
    by (simp add: h)
  show "new_effects w (snd (handler env state_data_room message w))
          = [Reply (not_authorized_content message)]"
    by (simp add: h new_effects_callback)
  show "tagged ''TWITTER_POST_FAILED'' (Reply (not_authorized_content message))"
    by (rule tagged_not_authorized)
  show "w_tasks (snd (handler env state_data_room message w)) = w_tasks w"
    by (simp add: h w_tasks_callback)
next
  assume "r_type room = GROUP \<and> \<not> truthy (r_serverId room)"
  then show "handler env state_data_room message w = (Inl (Error ''No server ID found''), w)"
    using room by (simp add: handler_no_server)
next
  fix serverId
  assume a: "r_type room = GROUP \<and> r_serverId room = Some serverId \<and> serverId \<noteq> []
          \<and> e_getWorldSettings env serverId = Inr None"
  then have "handler env state_data_room message w = handler_group env message serverId w"
    using room by (simp add: handler_group_room)
  with a show "handler env state_data_room message w
              = (Inl (Error ''Twitter not configured for this server''), w)"
    by (simp add: handler_group_no_settings)
qed

theorem handler_decline_reports_failure_witness:
  "resolve_room example_env (Some (example_room\<lparr>r_type := DM\<rparr>))
       (example_message ''owner-0-0-0-1'') = Some (example_room\<lparr>r_type := DM\<rparr>)
   \<and> new_effects empty_World
        (snd (handler example_env (Some (example_room\<lparr>r_type := DM\<rparr>))
                (example_message ''owner-0-0-0-1'') empty_World))
       = [MemoryCreated (not_group_memory (example_message ''owner-0-0-0-1''))]
   \<and> fst (handler example_env (Some (example_room\<lparr>r_type := DM\<rparr>))
            (example_message ''owner-0-0-0-1'') empty_World) = Inr ReturnedFalse
   \<and> resolve_room example_env None (example_message ''guest-0-0-0-1'') = Some example_room
   \<and> new_effects empty_World
        (snd (handler example_env None (example_message ''guest-0-0-0-1'') empty_World))
       = [Reply (not_authorized_content (example_message ''guest-0-0-0-1''))]
   \<and> fst (handler example_env None (example_message ''guest-0-0-0-1'') empty_World)
       = Inr ReturnedUndefined
   \<and> tagged ''TWITTER_POST_FAILED''
        (Reply (not_authorized_content (example_message ''guest-0-0-0-1'')))"
proof -
  let ?dm = "example_room\<lparr>r_type := DM\<rparr>"
  let ?o = "example_message ''owner-0-0-0-1''"
  let ?g = "example_message ''guest-0-0-0-1''"
  have r1: "resolve_room example_env (Some ?dm) ?o = Some ?dm"
    by (simp add: resolve_room_def)
  have d1: "r_type ?dm \<noteq> GROUP \<and> e_messagesManager example_env"
    by (simp add: example_env_def)
  have r2: "resolve_room example_env None ?g = Some example_room"
    by (simp add: resolve_room_def example_env_def example_message_def)
  have d2: "r_type example_room = GROUP \<and> r_serverId example_room = Some ''server-1''
          \<and> ''server-1'' \<noteq> []
          \<and> e_getWorldSettings example_env ''server-1'' = Inr (Some example_settings)
          \<and> e_useModel example_env = Inr ([CHR 0x22] @ ''Ship it!'' @ [CHR 0x22] @ '' '')
          \<and> e_getUserServerRole example_env (m_entityId ?g) ''server-1'' \<noteq> ''OWNER''
          \<and> e_getUserServerRole example_env (m_entityId ?g) ''server-1'' \<noteq> ''ADMIN''"
    by (simp add: example_room_def example_env_def example_message_def)
  note a = handler_decline_reports_failure [OF r1, of empty_World, THEN conjunct1, rule_format, OF d1]
  note b = handler_decline_reports_failure [OF r2, of empty_World, THEN conjunct2, THEN conjunct1,
      rule_format, OF d2]
  from a b r1 r2 show ?thesis by blast
qed

text \<open>
  The worker that the handler registers when none is registered yet holds the server
  of the room in which the task is created, and its gate asks for the role on that
  server.
\<close>

lemma fresh_worker_role_gate:
  assumes run: "handler env state_data_room message w = (Inr (ReturnedContent c), w')"
    and fresh: "getTaskWorker w ''TWITTER_POST'' = None"
  shows "\<exists>wk room serverId.
           getTaskWorker w' ''TWITTER_POST'' = Some wk
           \<and> resolve_room env state_data_room message = Some room
           \<and> r_serverId room = Some serverId
           \<and> (confirmation_task message)\<lparr>t_id := Some (e_newTaskId env)\<rparr>
                 \<in> set (pending w' (m_roomId message))
           \<and> (\<forall>resolving. worker_validate env wk resolving
                 = (e_getUserServerRole env (m_entityId resolving) serverId = ''OWNER''
                    \<or> e_getUserServerRole env (m_entityId resolving) serverId = ''ADMIN''))"
proof -
  from handler_cases[of env state_data_room message w] run
  obtain room serverId where room: "resolve_room env state_data_room message = Some room"
    and sid: "r_serverId room = Some serverId"
    and hg: "handler env state_data_room message w = handler_group env message serverId w"
    by auto
  have auth: "authorized env message serverId"
  proof (rule ccontr)
    assume "\<not> authorized env message serverId"
    from handler_group_unauthorized[OF this, of w] hg run show False by auto
  qed
  from handler_group_authorized[OF auth, of w] hg run fresh
  obtain wk where wk: "getTaskWorker w' ''TWITTER_POST'' = Some wk" "wk_serverId wk = serverId"
    and tasks: "w_tasks w' = filter (\<lambda>t. t_id t \<noteq> Some (m_roomId message)) (w_tasks w)
                  @ [(confirmation_task message)\<lparr>t_id := Some (e_newTaskId env)\<rparr>]"
    by auto
  have "(confirmation_task message)\<lparr>t_id := Some (e_newTaskId env)\<rparr>
          \<in> set (pending w' (m_roomId message))"
    by (simp add: pending_def getTasks_def tasks confirmation_task_def)
  with room sid wk show ?thesis
    by (auto simp: worker_validate_def Let_def)
qed

lemma clean_example:
  "clean_tweet [CHR 0x22, CHR ''S'', CHR ''h'', CHR ''i'', CHR ''p'', CHR '' '', CHR ''i'',
                CHR ''t'', CHR ''!'', CHR 0x22, CHR '' ''] = ''Ship it!''"
  by (simp add: clean_tweet_def trim_def js_whitespace_def strip_quotes_def quote_char_def
      line_terminator_def)

lemma example_handler_run:
  "handler example_env None (example_message ''owner-0-0-0-1'') empty_World
     = (Inr (ReturnedContent example_content), example_pending_World)"
  by (simp add: handler_def handler_group_def resolve_room_def example_env_def example_message_def
      example_room_def empty_World_def clean_example Let_def cancel_existing_task_def getTask_def
      getTaskWorker_def registerTaskWorker_def createTask_def callback_def emit_def
      example_content_def example_pending_World_def example_worker_def example_task_def)

lemma first_request_run:
  "handler (two_server_env ''task-0-0-0-1'' ([CHR 0x22] @ ''Ship it!'' @ [CHR 0x22] @ '' '')) None
       (example_message ''owner-0-0-0-1'') empty_World
     = (Inr (ReturnedContent example_content), example_pending_World)"
  by (simp add: handler_def handler_group_def resolve_room_def two_server_env_def example_env_def
      example_message_def example_room_def empty_World_def clean_example Let_def
      cancel_existing_task_def getTask_def getTaskWorker_def registerTaskWorker_def createTask_def
      callback_def emit_def example_content_def example_pending_World_def example_worker_def
      example_task_def)

lemma second_request_admitted:
  "validate (two_server_env ''task-0-0-0-2'' ''Second!'') None
       (example_message2 ''owner-0-0-0-2'') example_pending_World = Inr True"
  by (simp add: validate_def resolve_room_def two_server_env_def example_env_def
      example_message2_def example_message_def example_room2_def getTasks_def
      example_pending_World_def example_task_def confirmation_task_def
      validateTwitterConfig_def REQUIRED_TWITTER_FIELDS_def example_settings_def)

lemma second_request_run:
  "\<exists>c. handler (two_server_env ''task-0-0-0-2'' ''Second!'') None
          (example_message2 ''owner-0-0-0-2'') example_pending_World
        = (Inr (ReturnedContent c), two_requests_World)"
proof -
  let ?env = "two_server_env ''task-0-0-0-2'' ''Second!''"
  let ?m = "example_message2 ''owner-0-0-0-2''"
  have room: "resolve_room ?env None ?m = Some example_room2"
    by (simp add: resolve_room_def two_server_env_def example_message2_def)
  have g: "handler ?env None ?m example_pending_World
             = handler_group ?env ?m ''server-2'' example_pending_World"
    by (rule handler_group_room[OF room]) (simp_all add: example_room2_def)
  have auth: "authorized ?env ?m ''server-2''"
    by (simp add: authorized_def two_server_env_def example_message2_def example_message_def)
  have "\<And>e. handler_group ?env ?m ''server-2'' example_pending_World \<noteq> (Inl e, example_pending_World)"
    by (simp add: handler_group_def two_server_env_def example_env_def Let_def
        example_message2_def example_message_def)
  with handler_group_authorized[OF auth, of example_pending_World] g
  obtain c w' where "handler ?env None ?m example_pending_World = (Inr (ReturnedContent c), w')"
    by auto
  then show ?thesis
    by (auto simp: two_requests_World_def)
qed

lemma second_request_keeps_worker:
  "getTaskWorker two_requests_World ''TWITTER_POST'' = Some example_worker"
proof -
  let ?env = "two_server_env ''task-0-0-0-2'' ''Second!''"
  let ?m = "example_message2 ''owner-0-0-0-2''"
  have "w_workers (snd (handler_group ?env ?m ''server-2'' example_pending_World))
          = w_workers example_pending_World"
    by (simp add: handler_group_def two_server_env_def example_env_def Let_def
        example_message2_def example_message_def getTaskWorker_def existing_task_workers
        createTask_def callback_def emit_def example_pending_World_def
        split: sum.split option.split)
  moreover have "handler ?env None ?m example_pending_World
             = handler_group ?env ?m ''server-2'' example_pending_World"
    by (rule handler_group_room[of _ _ _ example_room2])
      (simp_all add: resolve_room_def two_server_env_def example_message2_def example_room2_def)
  ultimately show ?thesis
    by (simp add: two_requests_World_def getTaskWorker_def example_pending_World_def)
qed

lemma second_request_pending:
  "pending two_requests_World ''room-0-0-0-2''
     = [(confirmation_task (example_message2 ''owner-0-0-0-2''))\<lparr>t_id := Some ''task-0-0-0-2''\<rparr>]"
proof -
  let ?env = "two_server_env ''task-0-0-0-2'' ''Second!''"
  let ?m = "example_message2 ''owner-0-0-0-2''"
  have auth: "authorized ?env ?m ''server-2''"
    by (simp add: authorized_def two_server_env_def example_message2_def example_message_def)
  have g: "handler ?env None ?m example_pending_World
             = handler_group ?env ?m ''server-2'' example_pending_World"
    by (rule handler_group_room[of _ _ _ example_room2])
      (simp_all add: resolve_room_def two_server_env_def example_message2_def example_room2_def)
  from second_request_run obtain c
    where "handler ?env None ?m example_pending_World = (Inr (ReturnedContent c), two_requests_World)"
    by blast
  with handler_group_authorized[OF auth, of example_pending_World] g
  have "w_tasks two_requests_World
          = filter (\<lambda>t. t_id t \<noteq> Some (m_roomId ?m)) (w_tasks example_pending_World)
              @ [(confirmation_task ?m)\<lparr>t_id := Some (e_newTaskId ?env)\<rparr>]"
    by auto
  then show ?thesis
    by (simp add: pending_def getTasks_def example_pending_World_def example_task_def
        confirmation_task_def example_message2_def example_message_def two_server_env_def)
qed

text \<open>
  C6. The validate gate of the \<open>TWITTER_POST\<close> task worker is meant to return true if
  and only if the resolving message's entity holds the server role \<open>OWNER\<close> or \<open>ADMIN\<close>
  for the task's server. The handler registers its worker only when none is registered,
  so a later task is gated by the worker of the first request, which holds the first
  request's server. Here the first request came from the first server and the second
  from the second: the task pending in the second room is gated by a worker that
  refuses the owner of the second server and admits the owner of the first, who has no
  role on the second. The same worker, told to post, sends the first request's tweet.
\<close>

theorem stale_worker_checks_first_server:
  "handler (two_server_env ''task-0-0-0-1'' ([CHR 0x22] @ ''Ship it!'' @ [CHR 0x22] @ '' '')) None
       (example_message ''owner-0-0-0-1'') empty_World
     = (Inr (ReturnedContent example_content), example_pending_World)
   \<and> validate (two_server_env ''task-0-0-0-2'' ''Second!'') None
       (example_message2 ''owner-0-0-0-2'') example_pending_World = Inr True
   \<and> two_requests_World
       = snd (handler (two_server_env ''task-0-0-0-2'' ''Second!'') None
                (example_message2 ''owner-0-0-0-2'') example_pending_World)
   \<and> pending two_requests_World ''room-0-0-0-2''
       = [(confirmation_task (example_message2 ''owner-0-0-0-2''))\<lparr>t_id := Some ''task-0-0-0-2''\<rparr>]
   \<and> e_getRoom (two_server_env ''task-0-0-0-2'' ''Second!'') ''room-0-0-0-2'' = Some example_room2
   \<and> r_serverId example_room2 = Some ''server-2''
   \<and> getTaskWorker two_requests_World ''TWITTER_POST'' = Some example_worker
   \<and> wk_serverId example_worker = ''server-1''
   \<and> e_getUserServerRole (two_server_env ''task-0-0-0-2'' ''Second!'') ''owner-0-0-0-2''
        ''server-2'' = ''OWNER''
   \<and> worker_validate (two_server_env ''task-0-0-0-2'' ''Second!'') example_worker
        (example_message2 ''owner-0-0-0-2'') = False
   \<and> e_getUserServerRole (two_server_env ''task-0-0-0-2'' ''Second!'') ''owner-0-0-0-1''
        ''server-2'' = ''NONE''
   \<and> worker_validate (two_server_env ''task-0-0-0-2'' ''Second!'') example_worker
        (example_message2 ''owner-0-0-0-1'') = True
   \<and> tweets_sent (new_effects two_requests_World
        (snd (worker_execute (two_server_env ''task-0-0-0-2'' ''Second!'') example_worker ''post''
                two_requests_World))) = [''Ship it!'']"
proof -
  let ?env = "two_server_env ''task-0-0-0-2'' ''Second!''"
  have room: "e_getRoom ?env ''room-0-0-0-2'' = Some example_room2"
    and sid: "r_serverId example_room2 = Some ''server-2''"
    and wsid: "wk_serverId example_worker = ''server-1''"
    by (simp_all add: two_server_env_def example_room2_def example_worker_def)
  have o2: "e_getUserServerRole ?env ''owner-0-0-0-2'' ''server-2'' = ''OWNER''"
    and o1: "e_getUserServerRole ?env ''owner-0-0-0-1'' ''server-2'' = ''NONE''"
    by (simp_all add: two_server_env_def)
  have v2: "worker_validate ?env example_worker (example_message2 ''owner-0-0-0-2'') = False"
    and v1: "worker_validate ?env example_worker (example_message2 ''owner-0-0-0-1'') = True"
    by (simp_all add: worker_validate_def wsid two_server_env_def example_message2_def
        example_message_def)
  have "post_ready ?env example_worker"
    by (simp add: post_ready_def example_worker_settings two_server_env_def example_env_def)
  from execute_post_ready[OF this, of two_requests_World]
  have tw: "tweets_sent (new_effects two_requests_World
        (snd (worker_execute ?env example_worker ''post'' two_requests_World))) = [''Ship it!'']"
    by (simp add: example_worker_def)
  from first_request_run second_request_admitted second_request_pending
    second_request_keeps_worker room sid wsid o2 o1 v2 v1 tw
  show ?thesis
    by (simp add: two_requests_World_def)
qed

subsection \<open>The action path\<close>

lemma handler_tasks:
  "w_tasks (snd (handler env sroom message w)) = w_tasks w
   \<or> w_tasks (snd (handler env sroom message w))
       = filter (\<lambda>t. t_id t \<noteq> Some (m_roomId message)) (w_tasks w)
           @ [(confirmation_task message)\<lparr>t_id := Some (e_newTaskId env)\<rparr>]"
proof -
  from handler_cases[of env sroom message w]
  consider (thr) e where "handler env sroom message w = (Inl e, w)"
    | (ng) "handler env sroom message w
             = (Inr ReturnedFalse, emit (MemoryCreated (not_group_memory message)) w)"
    | (g) serverId where "handler env sroom message w = handler_group env message serverId w"
    by auto
  then show ?thesis
  proof cases
    case thr
    then show ?thesis by simp
  next
    case ng
    then show ?thesis by (simp add: w_tasks_emit)
  next
    case g
    show ?thesis
    proof (cases "authorized env message serverId")
      case True
      from handler_group_authorized[OF True, of w] g show ?thesis by auto
    next
      case False
      from handler_group_unauthorized[OF False, of w] g show ?thesis
        by (auto simp: w_tasks_callback)
    qed
  qed
qed

lemma validate_True_no_pending:
  "validate env sroom message w = Inr True \<Longrightarrow> pending w (m_roomId message) = []"
  unfolding validate_def pending_def Let_def
  by (simp split: option.split_asm if_split_asm)

lemma validate_pending:
  assumes "pending w (m_roomId message) \<noteq> []"
  shows "validate env sroom message w =
     (case resolve_room env sroom message of
        None \<Rightarrow> Inl (Error ''No room found'')
      | Some room \<Rightarrow>
          if r_type room \<noteq> GROUP then Inr False
          else if truthy (r_serverId room) then Inr False
          else Inl (Error ''No server ID found''))"
  using assms unfolding validate_def pending_def Let_def
  by (simp split: option.split)

lemma pending_filter:
  "pending w roomId = filter (\<lambda>t. t_roomId t = Some roomId
       \<and> ''TWITTER_POST'' \<in> set (case t_tags t of None \<Rightarrow> [] | Some gs \<Rightarrow> gs)) (w_tasks w)"
  by (simp add: pending_def getTasks_def)

lemma length_filter_filter_le:
  "length (filter P (filter Q xs)) \<le> length (filter P xs)"
  by (induction xs) auto

lemma action_path_excluded:
  assumes "validate env sroom message w \<noteq> Inr True"
  shows "action_path env sroom message w = w"
proof (cases "validate env sroom message w")
  case (Inl e)
  then show ?thesis by (simp add: action_path_def)
next
  case (Inr b)
  with assms have "b = False" by simp
  with Inr show ?thesis by (simp add: action_path_def)
qed

lemma action_path_admitted:
  assumes "validate env sroom message w = Inr True"
  shows "action_path env sroom message w = snd (handler env sroom message w)"
  using assms by (simp add: action_path_def)

lemma pending_after_action_path:
  "length (pending (action_path env sroom message w) roomId) \<le> max 1 (length (pending w roomId))"
proof (cases "validate env sroom message w = Inr True")
  case False
  then show ?thesis by (simp add: action_path_excluded)
next
  case True
  define P where "P = (\<lambda>t::Task. t_roomId t = Some roomId
       \<and> ''TWITTER_POST'' \<in> set (case t_tags t of None \<Rightarrow> [] | Some gs \<Rightarrow> gs))"
  define Q where "Q = (\<lambda>t::Task. t_id t \<noteq> Some (m_roomId message))"
  define new where "new = (confirmation_task message)\<lparr>t_id := Some (e_newTaskId env)\<rparr>"
  define w' where "w' = snd (handler env sroom message w)"
  have pf: "pending v roomId = filter P (w_tasks v)" for v
    by (simp add: pending_filter P_def)
  have ap: "action_path env sroom message w = w'"
    using True unfolding w'_def by (rule action_path_admitted)
  from True have np: "pending w (m_roomId message) = []"
    by (rule validate_True_no_pending)
  from handler_tasks[of env sroom message w]
  have "w_tasks w' = w_tasks w \<or> w_tasks w' = filter Q (w_tasks w) @ [new]"
    by (simp add: w'_def Q_def new_def)
  then have "length (filter P (w_tasks w')) \<le> max 1 (length (filter P (w_tasks w)))"
  proof
    assume "w_tasks w' = w_tasks w"
    then show ?thesis by simp
  next
    assume t: "w_tasks w' = filter Q (w_tasks w) @ [new]"
    have le: "length (filter P (filter Q (w_tasks w))) \<le> length (filter P (w_tasks w))"
      by (rule length_filter_filter_le)
    show ?thesis
    proof (cases "roomId = m_roomId message")
      case True
      have "filter P (w_tasks w) = pending w roomId" by (rule pf[symmetric])
      also have "\<dots> = []" using np True by simp
      finally have "filter P (w_tasks w) = []" .
      with le have "length (filter P (filter Q (w_tasks w))) = 0" by simp
      then show ?thesis unfolding t by simp
    next
      case False
      then have n: "\<not> P new" by (simp add: P_def new_def confirmation_task_def)
      with le show ?thesis unfolding t by simp
    qed
  qed
  then show ?thesis by (simp add: ap pf)
qed

text \<open>
  As first stated, C3 has \<open>validate\<close> return false for every message whose room holds
  a task tagged \<open>TWITTER_POST\<close>. When that room is a group without a server identifier,
  \<open>validate\<close> throws instead, before it looks for pending tasks.
\<close>

theorem validate_throws_despite_pending_task:
  "pending example_pending_World (m_roomId (example_message ''guest-0-0-0-1'')) = [example_task]
   \<and> validate (example_env\<lparr>e_getRoom := (\<lambda>i. Some (example_room\<lparr>r_serverId := None\<rparr>))\<rparr>) None
        (example_message ''guest-0-0-0-1'') example_pending_World
       = Inl (Error ''No server ID found'')"
  by (simp add: pending_def getTasks_def example_task_def confirmation_task_def
      example_message_def example_pending_World_def validate_def resolve_room_def
      example_env_def example_room_def)

text \<open>
  C3 (amended). At most one pending confirmation task exists per room via the action
  path. For every message whose room already holds a task tagged \<open>TWITTER_POST\<close>,
  \<open>validate\<close> never returns true: it returns false when the room is found and is not
  a GROUP channel or has a server identifier, and throws \<open>No room found\<close> or
  \<open>No server ID found\<close> otherwise. Either way the action path does not invoke the
  handler and leaves everything as it was. Hence one pass of the action path never
  takes the number of \<open>TWITTER_POST\<close> tasks of any room above one, unless it was above
  one before.
\<close>

theorem action_path_single_pending:
  "(pending w (m_roomId message) \<noteq> [] \<longrightarrow>
      validate env state_data_room message w
        = (case resolve_room env state_data_room message of
             None \<Rightarrow> Inl (Error ''No room found'')
           | Some room \<Rightarrow>
               if r_type room \<noteq> GROUP \<or> truthy (r_serverId room) then Inr False
               else Inl (Error ''No server ID found''))
      \<and> validate env state_data_room message w \<noteq> Inr True
      \<and> action_path env state_data_room message w = w)
   \<and> (\<forall>roomId. length (pending (action_path env state_data_room message w) roomId)
                   \<le> max 1 (length (pending w roomId)))"
proof (intro conjI impI allI)
  assume p: "pending w (m_roomId message) \<noteq> []"
  show "validate env state_data_room message w
        = (case resolve_room env state_data_room message of
             None \<Rightarrow> Inl (Error ''No room found'')
           | Some room \<Rightarrow>
               if r_type room \<noteq> GROUP \<or> truthy (r_serverId room) then Inr False
               else Inl (Error ''No server ID found''))"
    unfolding validate_pending[OF p] by (simp split: option.split)
  show nt: "validate env state_data_room message w \<noteq> Inr True"
    using validate_True_no_pending p by blast
  then show "action_path env state_data_room message w = w"
    by (rule action_path_excluded)
next
  fix roomId
  show "length (pending (action_path env state_data_room message w) roomId)
          \<le> max 1 (length (pending w roomId))"
    by (rule pending_after_action_path)
qed

theorem action_path_single_pending_witness:
  "pending example_pending_World (m_roomId (example_message ''owner-0-0-0-1'')) \<noteq> []
   \<and> validate example_env None (example_message ''owner-0-0-0-1'') example_pending_World
       = Inr False
   \<and> action_path example_env None (example_message ''owner-0-0-0-1'') example_pending_World
       = example_pending_World
   \<and> length (pending (action_path example_env None (example_message ''owner-0-0-0-1'')
                 empty_World) ''room-0-0-0-1'') \<le> 1"
proof -
  let ?m = "example_message ''owner-0-0-0-1''"
  have p: "pending example_pending_World (m_roomId ?m) \<noteq> []"
    by (simp add: pending_def getTasks_def example_task_def confirmation_task_def
        example_message_def example_pending_World_def)
  have room: "resolve_room example_env None ?m = Some example_room"
    by (simp add: resolve_room_def example_env_def example_message_def)
  have e: "pending empty_World ''room-0-0-0-1'' = []"
    by (simp add: pending_def getTasks_def empty_World_def)
  note a = action_path_single_pending [of example_pending_World ?m example_env None]
  note b = action_path_single_pending [of empty_World ?m example_env None]
  from a p have "validate example_env None ?m example_pending_World = Inr False"
    and "action_path example_env None ?m example_pending_World = example_pending_World"
    by (simp_all add: room example_room_def)
  moreover from b have "length (pending (action_path example_env None ?m empty_World)
      ''room-0-0-0-1'') \<le> max 1 (length (pending empty_World ''room-0-0-0-1''))"
    by blast
  ultimately show ?thesis using p by (simp add: e)
qed

end
